theory Spec2Isabelle
  imports Complex_Main "HOL-Library.AList" "HOL-Library.Log_Nat"
begin

section \<open>Savings goals and the contribution ledger\<close>

text \<open>
  The tables \<^verbatim>\<open>savings_goals\<close> and \<^verbatim>\<open>savings_goal_contributions\<close> of
  \<^verbatim>\<open>init_db_for_connection\<close>. Only the columns that the triggers and the goal
  handlers read or write are kept (\<^verbatim>\<open>name\<close>, \<^verbatim>\<open>deadline\<close>, \<^verbatim>\<open>note\<close> and the
  timestamps are left out). A finite value of SQLite's \<^verbatim>\<open>REAL\<close> or Python's \<^verbatim>\<open>float\<close> is
  a \<^typ>\<open>real\<close>; infinities and NaN are not part of the model, and the amount columns are
  never \<^verbatim>\<open>NULL\<close> (the handlers always bind a float). The triggers and statements are given
  twice: first with the arithmetic of their expressions taken exactly, then, in the
  section on double arithmetic, with every operation rounded as SQLite rounds it.
  \<open>goal_seq\<close> and \<open>contribution_seq\<close> are the \<^verbatim>\<open>AUTOINCREMENT\<close> sequences of the two tables.
\<close>

record savings_goal =
  sg_id :: int
  sg_user_id :: int
  target_amount :: real
  current_amount :: real

record contribution =
  sgc_id :: int
  goal_id :: int
  sgc_amount :: real

record goals_db =
  savings_goals :: "savings_goal list"
  savings_goal_contributions :: "contribution list"
  goal_seq :: int
  contribution_seq :: int

text \<open>
  The three row triggers. Each is the \<^verbatim>\<open>UPDATE savings_goals ... WHERE id = ...\<close> of its
  body, run once for the row \<^verbatim>\<open>NEW\<close> and/or \<^verbatim>\<open>OLD\<close> that fired it.
\<close>

definition trg_savings_goal_contributions_insert ::
  "contribution \<Rightarrow> savings_goal list \<Rightarrow> savings_goal list" where
  "trg_savings_goal_contributions_insert new goals =
     map (\<lambda>g. if sg_id g = goal_id new
              then g\<lparr>current_amount := current_amount g + sgc_amount new\<rparr>
              else g) goals"

definition trg_savings_goal_contributions_update ::
  "contribution \<Rightarrow> contribution \<Rightarrow> savings_goal list \<Rightarrow> savings_goal list" where
  "trg_savings_goal_contributions_update old new goals =
     map (\<lambda>g. if sg_id g = goal_id new
              then g\<lparr>current_amount := current_amount g - sgc_amount old + sgc_amount new\<rparr>
              else g) goals"

definition trg_savings_goal_contributions_delete ::
  "contribution \<Rightarrow> savings_goal list \<Rightarrow> savings_goal list" where
  "trg_savings_goal_contributions_delete old goals =
     map (\<lambda>g. if sg_id g = goal_id old
              then g\<lparr>current_amount := max (current_amount g - sgc_amount old) 0\<rparr>
              else g) goals"

text \<open>
  The statements on \<^verbatim>\<open>savings_goal_contributions\<close>. SQLite fires an \<^verbatim>\<open>AFTER\<close> row
  trigger once for every row the statement touches, in table order.
  \<^verbatim>\<open>INSERT INTO savings_goal_contributions (goal_id, amount, note) VALUES (?, ?, ?)\<close>
  draws the row id from the \<^verbatim>\<open>AUTOINCREMENT\<close> sequence.
\<close>

definition insert_contribution :: "int \<Rightarrow> real \<Rightarrow> goals_db \<Rightarrow> goals_db" where
  "insert_contribution gid amt db =
     (let new = \<lparr>sgc_id = contribution_seq db + 1, goal_id = gid, sgc_amount = amt\<rparr>
      in db\<lparr>savings_goal_contributions := savings_goal_contributions db @ [new],
            contribution_seq := contribution_seq db + 1,
            savings_goals := trg_savings_goal_contributions_insert new (savings_goals db)\<rparr>)"

text \<open>\<^verbatim>\<open>UPDATE savings_goal_contributions SET amount = ? WHERE id = ?\<close>\<close>

definition update_contribution :: "int \<Rightarrow> real \<Rightarrow> goals_db \<Rightarrow> goals_db" where
  "update_contribution cid amt db =
     db\<lparr>savings_goal_contributions :=
          map (\<lambda>c. if sgc_id c = cid then c\<lparr>sgc_amount := amt\<rparr> else c)
            (savings_goal_contributions db),
        savings_goals :=
          fold (\<lambda>c gs. if sgc_id c = cid
                        then trg_savings_goal_contributions_update c (c\<lparr>sgc_amount := amt\<rparr>) gs
                        else gs)
            (savings_goal_contributions db) (savings_goals db)\<rparr>"

text \<open>\<^verbatim>\<open>DELETE FROM savings_goal_contributions WHERE id = ?\<close>\<close>

definition delete_contribution :: "int \<Rightarrow> goals_db \<Rightarrow> goals_db" where
  "delete_contribution cid db =
     db\<lparr>savings_goal_contributions :=
          filter (\<lambda>c. sgc_id c \<noteq> cid) (savings_goal_contributions db),
        savings_goals :=
          fold (\<lambda>c gs. if sgc_id c = cid
                        then trg_savings_goal_contributions_delete c gs
                        else gs)
            (savings_goal_contributions db) (savings_goals db)\<rparr>"

text \<open>
  The sum of the amounts recorded for a goal, in exact arithmetic: the value that the
  aggregate \<^verbatim>\<open>current_amount\<close> is meant to have.
\<close>

definition csum :: "contribution list \<Rightarrow> int \<Rightarrow> real" where
  "csum cs gid = sum_list (map sgc_amount (filter (\<lambda>c. goal_id c = gid) cs))"

section \<open>Double arithmetic\<close>

text \<open>
  SQLite's \<^verbatim>\<open>REAL\<close> and Python's \<^verbatim>\<open>float\<close> are IEEE 754 binary64 numbers. An operation on
  doubles gives its exact result rounded to the nearest double, a tie going to the double
  with the even significand. \<open>binade x\<close> is the exponent \<open>e\<close> with
  \<open>2 powi e \<le> \<bar>x\<bar> < 2 powi (e + 1)\<close>; the doubles of that binade are \<open>2 powi (e - 52)\<close> apart,
  and those below \<open>2 powi (- 1022)\<close>, the subnormals, are \<open>2 powi (- 1074)\<close> apart. Results
  beyond the largest double, which round to an infinity, are left out.
\<close>

definition round_half_even :: "real \<Rightarrow> int" where
  "round_half_even x =
     (if x - of_int \<lfloor>x\<rfloor> < 1 / 2 then \<lfloor>x\<rfloor>
      else if 1 / 2 < x - of_int \<lfloor>x\<rfloor> then \<lfloor>x\<rfloor> + 1
      else if even \<lfloor>x\<rfloor> then \<lfloor>x\<rfloor> else \<lfloor>x\<rfloor> + 1)"

definition binade :: "real \<Rightarrow> int" where
  "binade x = (if 1 \<le> \<bar>x\<bar> then bitlen \<lfloor>\<bar>x\<bar>\<rfloor> - 1 else - bitlen (\<lceil>1 / \<bar>x\<bar>\<rceil> - 1))"

definition ulp :: "real \<Rightarrow> real" where
  "ulp x = 2 powi (max (binade x) (- 1022) - 52)"

definition double :: "real \<Rightarrow> real" where
  "double x = (if x = 0 then 0 else of_int (round_half_even (x / ulp x)) * ulp x)"

subsection \<open>The ledger in double arithmetic\<close>

text \<open>
  The three triggers as SQLite evaluates them: \<^verbatim>\<open>current_amount + NEW.amount\<close> is one
  addition, \<^verbatim>\<open>current_amount - OLD.amount + NEW.amount\<close> a subtraction and then an
  addition, \<^verbatim>\<open>MAX(current_amount - OLD.amount, 0)\<close> a subtraction and a comparison.
\<close>

definition trg_savings_goal_contributions_insert_double ::
  "contribution \<Rightarrow> savings_goal list \<Rightarrow> savings_goal list" where
  "trg_savings_goal_contributions_insert_double new goals =
     map (\<lambda>g. if sg_id g = goal_id new
              then g\<lparr>current_amount := double (current_amount g + sgc_amount new)\<rparr>
              else g) goals"

definition trg_savings_goal_contributions_update_double ::
  "contribution \<Rightarrow> contribution \<Rightarrow> savings_goal list \<Rightarrow> savings_goal list" where
  "trg_savings_goal_contributions_update_double old new goals =
     map (\<lambda>g. if sg_id g = goal_id new
              then g\<lparr>current_amount :=
                     double (double (current_amount g - sgc_amount old) + sgc_amount new)\<rparr>
              else g) goals"

definition trg_savings_goal_contributions_delete_double ::
  "contribution \<Rightarrow> savings_goal list \<Rightarrow> savings_goal list" where
  "trg_savings_goal_contributions_delete_double old goals =
     map (\<lambda>g. if sg_id g = goal_id old
              then g\<lparr>current_amount := max (double (current_amount g - sgc_amount old)) 0\<rparr>
              else g) goals"

text \<open>The three statements on \<^verbatim>\<open>savings_goal_contributions\<close>, firing these triggers.\<close>

definition insert_contribution_double :: "int \<Rightarrow> real \<Rightarrow> goals_db \<Rightarrow> goals_db" where
  "insert_contribution_double gid amt db =
     (let new = \<lparr>sgc_id = contribution_seq db + 1, goal_id = gid, sgc_amount = amt\<rparr>
      in db\<lparr>savings_goal_contributions := savings_goal_contributions db @ [new],
            contribution_seq := contribution_seq db + 1,
            savings_goals := trg_savings_goal_contributions_insert_double new (savings_goals db)\<rparr>)"

definition update_contribution_double :: "int \<Rightarrow> real \<Rightarrow> goals_db \<Rightarrow> goals_db" where
  "update_contribution_double cid amt db =
     db\<lparr>savings_goal_contributions :=
          map (\<lambda>c. if sgc_id c = cid then c\<lparr>sgc_amount := amt\<rparr> else c)
            (savings_goal_contributions db),
        savings_goals :=
          fold (\<lambda>c gs. if sgc_id c = cid
                        then trg_savings_goal_contributions_update_double c (c\<lparr>sgc_amount := amt\<rparr>) gs
                        else gs)
            (savings_goal_contributions db) (savings_goals db)\<rparr>"

definition delete_contribution_double :: "int \<Rightarrow> goals_db \<Rightarrow> goals_db" where
  "delete_contribution_double cid db =
     db\<lparr>savings_goal_contributions :=
          filter (\<lambda>c. sgc_id c \<noteq> cid) (savings_goal_contributions db),
        savings_goals :=
          fold (\<lambda>c gs. if sgc_id c = cid
                        then trg_savings_goal_contributions_delete_double c gs
                        else gs)
            (savings_goal_contributions db) (savings_goals db)\<rparr>"

text \<open>
  \<^verbatim>\<open>SELECT COALESCE(SUM(amount), 0) FROM savings_goal_contributions WHERE goal_id = ?\<close>,
  the sum that \<^verbatim>\<open>savings_goals\<close> (GET) reports as \<^verbatim>\<open>contributed_amount\<close>: the rows of the
  goal are added one by one, in table order, each addition rounded. (SQLite from 3.44 on
  carries a correction term along; it is zero as long as every addition is exact.)
\<close>

definition contributed :: "goals_db \<Rightarrow> int \<Rightarrow> real" where
  "contributed db gid =
     foldl (\<lambda>total amount. double (total + amount)) 0
       (map sgc_amount (filter (\<lambda>c. goal_id c = gid) (savings_goal_contributions db)))"

section \<open>Python values and exceptions\<close>

text \<open>
  What \<^verbatim>\<open>json.load\<close> and \<^verbatim>\<open>response.json()\<close> return: a dynamically typed value. A
  \<open>JObj\<close> is a Python \<^verbatim>\<open>dict\<close> with \<^verbatim>\<open>str\<close> keys, its items in insertion order.
  A number is one of three kinds: \<open>JNum r\<close> is an \<^verbatim>\<open>int\<close> or a \<^verbatim>\<open>float\<close> that \<^verbatim>\<open>float()\<close>
  turns into the finite double \<open>r\<close>; \<open>JBigInt n\<close> is an \<^verbatim>\<open>int\<close> beyond the range of a
  double, on which \<^verbatim>\<open>float()\<close> raises \<^verbatim>\<open>OverflowError\<close>; \<open>JNaN\<close> is the float that the
  literal \<^verbatim>\<open>NaN\<close> decodes to. The two infinities are left out: \<^verbatim>\<open>float()\<close> passes them on
  and SQLite stores them, nothing raises on them. Strings are ASCII.
\<close>

datatype json =
    JNull
  | JBool bool
  | JNum real
  | JBigInt int
  | JNaN
  | JStr string
  | JArr "json list"
  | JObj "(string \<times> json) list"

text \<open>The exceptions that can leave the modelled functions.\<close>

datatype error =
    AttributeError
  | TypeError
  | ValueError
  | KeyError
  | IndexError
  | ZeroDivisionError
  | RequestException
  | HTTPError
  | JSONDecodeError
  | OverflowError
  | IntegrityError
  | UnicodeDecodeError
  | RecursionError

text \<open>A Python \<^verbatim>\<open>float\<close>: a finite double, or NaN.\<close>

datatype pyfloat = Finite real | NaN

text \<open>An aware \<^verbatim>\<open>datetime\<close> cannot be subtracted from a naive one.\<close>

datatype pydatetime = Naive int | Aware int

text \<open>Truthiness, as \<^verbatim>\<open>if x:\<close> and \<^verbatim>\<open>x or y\<close> test it.\<close>

fun py_bool :: "json \<Rightarrow> bool" where
  "py_bool JNull = False"
| "py_bool (JBool b) = b"
| "py_bool (JNum r) = (r \<noteq> 0)"
| "py_bool (JBigInt n) = (n \<noteq> 0)"
| "py_bool JNaN = True"
| "py_bool (JStr s) = (s \<noteq> [])"
| "py_bool (JArr xs) = (xs \<noteq> [])"
| "py_bool (JObj kvs) = (kvs \<noteq> [])"

text \<open>\<^verbatim>\<open>x.get(key)\<close>: only a dict has the method; a missing key gives \<^verbatim>\<open>None\<close>.\<close>

fun py_get :: "json \<Rightarrow> string \<Rightarrow> error + json" where
  "py_get (JObj kvs) k = Inr (case map_of kvs k of None \<Rightarrow> JNull | Some v \<Rightarrow> v)"
| "py_get _ k = Inl AttributeError"

text \<open>\<^verbatim>\<open>x.items()\<close>\<close>

fun py_items :: "json \<Rightarrow> error + (string \<times> json) list" where
  "py_items (JObj kvs) = Inr kvs"
| "py_items _ = Inl AttributeError"

text \<open>\<^verbatim>\<open>x[0]\<close>\<close>

fun py_index0 :: "json \<Rightarrow> error + json" where
  "py_index0 (JArr []) = Inl IndexError"
| "py_index0 (JArr (x # xs)) = Inr x"
| "py_index0 (JStr []) = Inl IndexError"
| "py_index0 (JStr (c # cs)) = Inr (JStr [c])"
| "py_index0 (JObj kvs) = Inl KeyError"
| "py_index0 _ = Inl TypeError"

text \<open>\<^verbatim>\<open>x['key']\<close>\<close>

fun py_getitem :: "json \<Rightarrow> string \<Rightarrow> error + json" where
  "py_getitem (JObj kvs) k = (case map_of kvs k of None \<Rightarrow> Inl KeyError | Some v \<Rightarrow> Inr v)"
| "py_getitem _ k = Inl TypeError"

text \<open>\<^verbatim>\<open>for item in x\<close>: a dict yields its keys, a string its characters.\<close>

fun py_iter :: "json \<Rightarrow> error + json list" where
  "py_iter (JArr xs) = Inr xs"
| "py_iter (JObj kvs) = Inr (map (\<lambda>kv. JStr (fst kv)) kvs)"
| "py_iter (JStr s) = Inr (map (\<lambda>c. JStr [c]) s)"
| "py_iter _ = Inl TypeError"

text \<open>\<^verbatim>\<open>str.upper()\<close> and \<^verbatim>\<open>str.strip()\<close> on ASCII strings.\<close>

definition upper_char :: "char \<Rightarrow> char" where
  "upper_char c =
     (case map_of (zip ''abcdefghijklmnopqrstuvwxyz'' ''ABCDEFGHIJKLMNOPQRSTUVWXYZ'') c of
        Some u \<Rightarrow> u
      | None \<Rightarrow> c)"

definition upper :: "string \<Rightarrow> string" where
  "upper s = map upper_char s"

definition is_space :: "char \<Rightarrow> bool" where
  "is_space c =
     (c \<in> set [CHR 0x09, CHR 0x0A, CHR 0x0B, CHR 0x0C, CHR 0x0D,
                CHR 0x1C, CHR 0x1D, CHR 0x1E, CHR 0x1F, CHR 0x20])"

definition strip :: "string \<Rightarrow> string" where
  "strip s = rev (dropWhile is_space (rev (dropWhile is_space s)))"

text \<open>\<^verbatim>\<open>x.upper()\<close> on a dynamically typed value.\<close>

fun py_upper :: "json \<Rightarrow> error + string" where
  "py_upper (JStr s) = Inr (upper s)"
| "py_upper _ = Inl AttributeError"

text \<open>\<^verbatim>\<open>a / b\<close> on floats.\<close>

definition py_truediv :: "real \<Rightarrow> real \<Rightarrow> error + real" where
  "py_truediv a b = (if b = 0 then Inl ZeroDivisionError else Inr (a / b))"

section \<open>The environment of the rate engine\<close>

text \<open>
  What \<^verbatim>\<open>requests.get(NBP_API_URL, timeout=5)\<close>, \<^verbatim>\<open>raise_for_status()\<close> and
  \<^verbatim>\<open>response.json()\<close> can do: raise (no connection, a timeout; a 4xx or 5xx status; a body
  that is not JSON) or deliver the decoded body.
\<close>

datatype http_outcome =
    NetworkError
  | HttpError int
  | InvalidBody
  | Payload json

text \<open>
  What one call of \<^verbatim>\<open>ensure_currency_rates\<close> observes of the outside world:
  \<^verbatim>\<open>datetime.utcnow()\<close> on entry (microseconds since the epoch) and its
  \<^verbatim>\<open>isoformat()\<close>, the outcome of the HTTP request, \<^verbatim>\<open>datetime.utcnow().isoformat()\<close>
  after the request, and whether the cache file can be written.
\<close>

record observation =
  obs_now :: int
  obs_now_iso :: string
  obs_fetch :: http_outcome
  obs_fetched_iso :: string
  obs_cache_writable :: bool

text \<open>
  The library functions that are not modelled bit by bit, and the outside world:
  \<open>float_of_str s\<close> is \<^verbatim>\<open>float(s)\<close> for a string (\<open>None\<close>: \<^verbatim>\<open>ValueError\<close>; \<^verbatim>\<open>float('nan')\<close>
  is NaN),
  \<open>fromisoformat s\<close> is \<^verbatim>\<open>datetime.fromisoformat(s)\<close> (\<open>None\<close>: \<^verbatim>\<open>ValueError\<close>), and
  \<open>outside n\<close> is what the \<open>n\<close>-th call of \<^verbatim>\<open>ensure_currency_rates\<close> observes.
\<close>

record env =
  float_of_str :: "string \<Rightarrow> pyfloat option"
  fromisoformat :: "string \<Rightarrow> pydatetime option"
  outside :: "nat \<Rightarrow> observation"

text \<open>\<^verbatim>\<open>float(x)\<close>\<close>

fun py_float :: "env \<Rightarrow> json \<Rightarrow> error + pyfloat" where
  "py_float E (JNum r) = Inr (Finite r)"
| "py_float E (JBigInt n) = Inl OverflowError"
| "py_float E JNaN = Inr NaN"
| "py_float E (JBool b) = Inr (Finite (if b then 1 else 0))"
| "py_float E (JStr s) = (case float_of_str E s of None \<Rightarrow> Inl ValueError | Some r \<Rightarrow> Inr r)"
| "py_float E _ = Inl TypeError"

text \<open>\<^verbatim>\<open>except (TypeError, ValueError)\<close>\<close>

definition caught :: "error \<Rightarrow> bool" where
  "caught e = (e = TypeError \<or> e = ValueError)"

text \<open>\<^verbatim>\<open>datetime.fromisoformat(x)\<close>: a \<^verbatim>\<open>TypeError\<close> unless \<open>x\<close> is a string.\<close>

fun py_fromisoformat :: "env \<Rightarrow> json \<Rightarrow> error + pydatetime option" where
  "py_fromisoformat E (JStr s) = Inr (fromisoformat E s)"
| "py_fromisoformat E _ = Inl TypeError"

section \<open>The rate table and the cache file\<close>

text \<open>
  A row of \<^verbatim>\<open>currency_rates\<close>. \<^verbatim>\<open>fetched_at\<close> holds whatever value the caller bound to it.
\<close>

record rate_row =
  currency_code :: string
  rate_to_pln :: real
  fetched_at :: json

text \<open>
  \<^verbatim>\<open>CURRENCY_CACHE_PATH\<close>: absent; present but not loadable with an exception that line
  533 catches (\<^verbatim>\<open>OSError\<close>, \<^verbatim>\<open>json.JSONDecodeError\<close>); present but not loadable with one that
  it does not catch (bytes that are not UTF-8: \<^verbatim>\<open>UnicodeDecodeError\<close>; a document nested
  too deep: \<^verbatim>\<open>RecursionError\<close>); or holding a JSON document.
\<close>

datatype cache_file = NoFile | Unreadable | NotUtf8 | TooDeep | FileHolds json

text \<open>
  The state the engine reads and writes: the table, the file, and the number of
  observations of the outside world made so far. The database itself is taken to work:
  a locked or missing database file is not part of the model.
\<close>

record world =
  currency_rates :: "rate_row list"
  cache :: cache_file
  tick :: nat

definition BASE_CURRENCY :: string where
  "BASE_CURRENCY = ''PLN''"

text \<open>\<^verbatim>\<open>timedelta(hours=24)\<close> in microseconds.\<close>

definition CURRENCY_CACHE_TTL :: int where
  "CURRENCY_CACHE_TTL = 24 * 3600 * 1000000"

subsection \<open>\<^verbatim>\<open>_store_currency_rates\<close>\<close>

text \<open>
  The first loop: \<^verbatim>\<open>sanitized\<close> starts as \<^verbatim>\<open>{'PLN': 1.0}\<close>; an empty code is skipped;
  \<^verbatim>\<open>float(value)\<close> is evaluated before the key, and its \<^verbatim>\<open>TypeError\<close> or
  \<^verbatim>\<open>ValueError\<close> skips the entry, while its \<^verbatim>\<open>OverflowError\<close> leaves the function. A dict
  assignment keeps the position of a key that is already there.
\<close>

fun sanitize ::
  "env \<Rightarrow> (string \<times> json) list \<Rightarrow> (string \<times> pyfloat) list \<Rightarrow> error + (string \<times> pyfloat) list" where
  "sanitize E [] sanitized = Inr sanitized"
| "sanitize E ((code, v) # rest) sanitized =
     (if code = [] then sanitize E rest sanitized
      else case py_float E v of
             Inl e \<Rightarrow> if caught e then sanitize E rest sanitized else Inl e
           | Inr r \<Rightarrow> sanitize E rest (AList.update (upper code) r sanitized))"

text \<open>
  The rates as SQLite takes them: \<^verbatim>\<open>rate_to_pln REAL NOT NULL\<close> refuses NaN, which
  SQLite binds as \<^verbatim>\<open>NULL\<close> (\<open>None\<close>: the \<^verbatim>\<open>INSERT\<close> raises \<^verbatim>\<open>sqlite3.IntegrityError\<close>, and
  nothing is committed).
\<close>

fun finite_rates :: "(string \<times> pyfloat) list \<Rightarrow> (string \<times> real) list option" where
  "finite_rates [] = Some []"
| "finite_rates ((code, Finite r) # rest) = map_option (Cons (code, r)) (finite_rates rest)"
| "finite_rates ((code, NaN) # rest) = None"

text \<open>\<^verbatim>\<open>INSERT OR REPLACE\<close> on the primary key \<^verbatim>\<open>currency_code\<close>.\<close>

definition insert_or_replace :: "rate_row \<Rightarrow> rate_row list \<Rightarrow> rate_row list" where
  "insert_or_replace row table =
     filter (\<lambda>r. currency_code r \<noteq> currency_code row) table @ [row]"

text \<open>\<^verbatim>\<open>DELETE FROM currency_rates\<close>, then one \<^verbatim>\<open>INSERT OR REPLACE\<close> per item.\<close>

definition replace_rates :: "(string \<times> real) list \<Rightarrow> json \<Rightarrow> rate_row list" where
  "replace_rates sanitized fetched =
     fold (\<lambda>(code, rate) table.
             insert_or_replace
               \<lparr>currency_code = code, rate_to_pln = rate, fetched_at = fetched\<rparr> table)
       sanitized []"

text \<open>The row inserted for an item of \<^verbatim>\<open>sanitized\<close>.\<close>

definition row_of :: "json \<Rightarrow> string \<times> real \<Rightarrow> rate_row" where
  "row_of stamp kv = \<lparr>currency_code = fst kv, rate_to_pln = snd kv, fetched_at = stamp\<rparr>"

text \<open>
  \<open>fetched\<close> is the value bound to \<^verbatim>\<open>fetched_at\<close>; every caller binds a string.
\<close>

definition store_currency_rates :: "env \<Rightarrow> json \<Rightarrow> json \<Rightarrow> world \<Rightarrow> error + world" where
  "store_currency_rates E rates fetched w =
     (case py_items rates of
        Inl e \<Rightarrow> Inl e
      | Inr items \<Rightarrow>
     (case sanitize E items [(''PLN'', Finite 1)] of
        Inl e \<Rightarrow> Inl e
      | Inr sanitized \<Rightarrow>
     (case finite_rates sanitized of
        None \<Rightarrow> Inl IntegrityError
      | Some rows \<Rightarrow> Inr (w\<lparr>currency_rates := replace_rates rows fetched\<rparr>))))"

subsection \<open>\<^verbatim>\<open>ensure_currency_rates\<close>\<close>

text \<open>
  Lines 528--534: the cache file is opened only when \<^verbatim>\<open>force_refresh\<close> is false and the
  file exists; \<^verbatim>\<open>OSError\<close> and \<^verbatim>\<open>json.JSONDecodeError\<close> leave \<^verbatim>\<open>cache_data = None\<close>, any
  other exception of \<^verbatim>\<open>json.load\<close> leaves the function.
\<close>

definition read_cache :: "bool \<Rightarrow> world \<Rightarrow> error + json option" where
  "read_cache force_refresh w =
     (if \<not> force_refresh
      then (case cache w of
              NoFile \<Rightarrow> Inr None
            | Unreadable \<Rightarrow> Inr None
            | NotUtf8 \<Rightarrow> Inl UnicodeDecodeError
            | TooDeep \<Rightarrow> Inl RecursionError
            | FileHolds j \<Rightarrow> Inr (Some j))
      else Inr None)"

text \<open>
  Lines 537--545, the body of \<^verbatim>\<open>if cache_data and not force_refresh\<close>: the result is
  \<open>Some (rates, fetched_at_str)\<close> when the snapshot is within the TTL (the function then
  stores it and returns), \<open>None\<close> when the function goes on to the live fetch.
\<close>

definition fresh_cache :: "env \<Rightarrow> observation \<Rightarrow> json \<Rightarrow> error + (json \<times> json) option" where
  "fresh_cache E ob cache_data =
     (case py_get cache_data ''fetched_at'' of
        Inl e \<Rightarrow> Inl e
      | Inr fetched_at_str \<Rightarrow>
     (case py_get cache_data ''rates'' of
        Inl e \<Rightarrow> Inl e
      | Inr r \<Rightarrow>
     (let rates = (if py_bool r then r else JObj []) in
      case (if py_bool fetched_at_str then py_fromisoformat E fetched_at_str else Inr None) of
        Inl e \<Rightarrow> Inl e
      | Inr None \<Rightarrow> Inr None
      | Inr (Some (Aware t)) \<Rightarrow> Inl TypeError
      | Inr (Some (Naive t)) \<Rightarrow>
          if obs_now ob - t \<le> CURRENCY_CACHE_TTL
          then Inr (Some (rates, fetched_at_str))
          else Inr None)))"

text \<open>
  Lines 550--553, the body of the \<^verbatim>\<open>try\<close>: every exception raised here is caught by
  \<^verbatim>\<open>except Exception\<close>.
\<close>

fun fetch_raw_rates :: "http_outcome \<Rightarrow> error + json" where
  "fetch_raw_rates NetworkError = Inl RequestException"
| "fetch_raw_rates (HttpError status) = Inl HTTPError"
| "fetch_raw_rates InvalidBody = Inl JSONDecodeError"
| "fetch_raw_rates (Payload payload) =
     (if py_bool payload
      then (case py_index0 payload of
              Inl e \<Rightarrow> Inl e
            | Inr first \<Rightarrow> py_getitem first ''rates'')
      else Inr (JArr []))"

text \<open>
  Lines 564--571, the loop over \<^verbatim>\<open>raw_rates\<close>, outside the \<^verbatim>\<open>try\<close>: \<^verbatim>\<open>item.get\<close> and
  \<^verbatim>\<open>code.upper()\<close> can raise \<^verbatim>\<open>AttributeError\<close> and \<^verbatim>\<open>float(value)\<close> can raise
  \<^verbatim>\<open>OverflowError\<close>, which the inner \<^verbatim>\<open>except (TypeError, ValueError)\<close> does not catch.
\<close>

fun extract_rates ::
  "env \<Rightarrow> json list \<Rightarrow> (string \<times> pyfloat) list \<Rightarrow> error + (string \<times> pyfloat) list" where
  "extract_rates E [] extracted_rates = Inr extracted_rates"
| "extract_rates E (item # rest) extracted_rates =
     (case py_get item ''code'' of
        Inl e \<Rightarrow> Inl e
      | Inr code \<Rightarrow>
     (case py_get item ''mid'' of
        Inl e \<Rightarrow> Inl e
      | Inr v \<Rightarrow>
          if py_bool code \<and> v \<noteq> JNull
          then (case py_float E v of
                  Inl e \<Rightarrow> if caught e then extract_rates E rest extracted_rates else Inl e
                | Inr r \<Rightarrow>
                    (case py_upper code of
                       Inl e \<Rightarrow> Inl e
                     | Inr c \<Rightarrow> extract_rates E rest (AList.update c r extracted_rates)))
          else extract_rates E rest extracted_rates))"

text \<open>The dict \<^verbatim>\<open>extracted_rates\<close> as the value that is stored and dumped.\<close>

definition json_of_float :: "pyfloat \<Rightarrow> json" where
  "json_of_float f = (case f of Finite r \<Rightarrow> JNum r | NaN \<Rightarrow> JNaN)"

definition rates_json :: "(string \<times> pyfloat) list \<Rightarrow> json" where
  "rates_json extracted = JObj (map (\<lambda>kv. (fst kv, json_of_float (snd kv))) extracted)"

text \<open>
  Lines 555--560, the \<^verbatim>\<open>except\<close> branch: the snapshot read at the top, if any, is stored.
\<close>

definition fallback_to_cache :: "env \<Rightarrow> observation \<Rightarrow> json option \<Rightarrow> world \<Rightarrow> error + world" where
  "fallback_to_cache E ob cache_data w =
     (case cache_data of
        None \<Rightarrow> Inr w
      | Some cd \<Rightarrow>
          if py_bool cd
          then (case py_get cd ''fetched_at'' of
                  Inl e \<Rightarrow> Inl e
                | Inr f \<Rightarrow>
               (case py_get cd ''rates'' of
                  Inl e \<Rightarrow> Inl e
                | Inr r \<Rightarrow>
                    store_currency_rates E
                      (if py_bool r then r else JObj [])
                      (if py_bool f then f else JStr (obs_now_iso ob)) w))
          else Inr w)"

text \<open>Lines 562--583: what follows a \<^verbatim>\<open>try\<close> that did not raise.\<close>

definition store_live_rates :: "env \<Rightarrow> observation \<Rightarrow> json \<Rightarrow> world \<Rightarrow> error + world" where
  "store_live_rates E ob raw_rates w =
     (case py_iter raw_rates of
        Inl e \<Rightarrow> Inl e
      | Inr items \<Rightarrow>
     (case extract_rates E items [] of
        Inl e \<Rightarrow> Inl e
      | Inr extracted_rates \<Rightarrow>
     (case store_currency_rates E (rates_json extracted_rates) (JStr (obs_fetched_iso ob)) w of
        Inl e \<Rightarrow> Inl e
      | Inr w' \<Rightarrow>
          Inr (if obs_cache_writable ob
               then w'\<lparr>cache := FileHolds (JObj
                      [(''fetched_at'', JStr (obs_fetched_iso ob)),
                       (''rates'', rates_json extracted_rates)])\<rparr>
               else w'))))"

definition ensure_currency_rates :: "env \<Rightarrow> bool \<Rightarrow> world \<Rightarrow> error + world" where
  "ensure_currency_rates E force_refresh w0 =
     (let ob = outside E (tick w0);
          w = w0\<lparr>tick := Suc (tick w0)\<rparr>
      in case read_cache force_refresh w of
           Inl e \<Rightarrow> Inl e
         | Inr cache_data \<Rightarrow>
        (case (case cache_data of
                 None \<Rightarrow> Inr None
               | Some cd \<Rightarrow>
                   if py_bool cd \<and> \<not> force_refresh then fresh_cache E ob cd else Inr None) of
           Inl e \<Rightarrow> Inl e
         | Inr (Some (rates, fetched_at_str)) \<Rightarrow> store_currency_rates E rates fetched_at_str w
         | Inr None \<Rightarrow>
             (case fetch_raw_rates (obs_fetch ob) of
                Inl exc \<Rightarrow> fallback_to_cache E ob cache_data w
              | Inr raw_rates \<Rightarrow> store_live_rates E ob raw_rates w)))"

subsection \<open>Rate lookup and conversion\<close>

text \<open>\<^verbatim>\<open>SELECT rate_to_pln FROM currency_rates WHERE currency_code = ?\<close>, \<^verbatim>\<open>fetchone()\<close>\<close>

definition select_rate :: "string \<Rightarrow> rate_row list \<Rightarrow> real option" where
  "select_rate code table =
     map_option rate_to_pln (find (\<lambda>r. currency_code r = code) table)"

definition get_exchange_rate :: "env \<Rightarrow> string \<Rightarrow> world \<Rightarrow> error + (real \<times> world)" where
  "get_exchange_rate E currency w =
     (if currency = [] then Inr (1, w)
      else if upper currency = ''PLN'' then Inr (1, w)
      else case ensure_currency_rates E False w of
             Inl e \<Rightarrow> Inl e
           | Inr w' \<Rightarrow>
               Inr (case select_rate (upper currency) (currency_rates w') of
                      Some r \<Rightarrow> r
                    | None \<Rightarrow> 1, w'))"

text \<open>\<^verbatim>\<open>(x or 'PLN').upper()\<close>\<close>

definition or_pln_upper :: "string option \<Rightarrow> string" where
  "or_pln_upper x = upper (case x of None \<Rightarrow> ''PLN'' | Some s \<Rightarrow> if s = [] then ''PLN'' else s)"

definition convert_amount ::
  "env \<Rightarrow> real option \<Rightarrow> string option \<Rightarrow> string option \<Rightarrow> world \<Rightarrow> error + (real \<times> world)" where
  "convert_amount E amount source_currency target_currency w =
     (case amount of
        None \<Rightarrow> Inr (0, w)
      | Some a \<Rightarrow>
          (let source = or_pln_upper source_currency;
               target = or_pln_upper target_currency
           in if source = target then Inr (a, w)
              else case get_exchange_rate E source w of
                     Inl e \<Rightarrow> Inl e
                   | Inr (source_rate, w1) \<Rightarrow>
                  (case get_exchange_rate E target w1 of
                     Inl e \<Rightarrow> Inl e
                   | Inr (target_rate, w2) \<Rightarrow>
                       if target_rate = 0 then Inr (a * source_rate, w2)
                       else (let amount_pln = a * source_rate
                             in if target = ''PLN'' then Inr (amount_pln, w2)
                                else case py_truediv amount_pln target_rate of
                                       Inl e \<Rightarrow> Inl e
                                     | Inr q \<Rightarrow> Inr (q, w2)))))"

definition normalize_currency :: "string option \<Rightarrow> string \<Rightarrow> string" where
  "normalize_currency v fallback =
     (case v of
        None \<Rightarrow> fallback
      | Some s \<Rightarrow>
          if s = [] then fallback
          else (let normalized = upper (strip s)
                in if normalized = [] then fallback else normalized))"

definition convert_to_base :: "env \<Rightarrow> real \<Rightarrow> string option \<Rightarrow> world \<Rightarrow> error + (real \<times> world)" where
  "convert_to_base E amount currency w =
     convert_amount E (Some amount) (Some (normalize_currency currency BASE_CURRENCY))
       (Some BASE_CURRENCY) w"

definition convert_from_base :: "env \<Rightarrow> real \<Rightarrow> string option \<Rightarrow> world \<Rightarrow> error + (real \<times> world)" where
  "convert_from_base E amount currency w =
     convert_amount E (Some amount) (Some BASE_CURRENCY)
       (Some (normalize_currency currency BASE_CURRENCY)) w"

section \<open>Budget aggregation\<close>

text \<open>
  The columns of \<^verbatim>\<open>transactions\<close> and \<^verbatim>\<open>budgets\<close> that the \<^verbatim>\<open>budgets\<close> handler (GET)
  and \<^verbatim>\<open>maybe_send_budget_notification\<close> use. A date is a day number.
\<close>

record txn_row =
  txn_id :: int
  txn_user_id :: int
  txn_type :: string
  txn_category_id :: "int option"
  txn_budget_id :: "int option"
  txn_amount :: real
  txn_currency :: "string option"
  converted_amount :: "real option"
  txn_occurred_on :: string

record budget_row =
  bud_id :: int
  bud_user_id :: int
  bud_category_id :: "int option"
  bud_name :: string
  limit_amount :: real
  start_date :: "string option"
  end_date :: "string option"
  last_notified_at :: "string option"

text \<open>
  The row of \<^verbatim>\<open>SELECT id, budget_id, category_id, amount, currency, occurred_on FROM
  transactions WHERE user_id = ? AND type = ?\<close> (lines 1808--1813): six columns, without
  \<^verbatim>\<open>converted_amount\<close>.
\<close>

record selected_txn =
  sel_id :: int
  sel_budget_id :: "int option"
  sel_category_id :: "int option"
  sel_amount :: real
  sel_currency :: "string option"
  sel_occurred_on :: string

definition select_expenses :: "int \<Rightarrow> txn_row list \<Rightarrow> selected_txn list" where
  "select_expenses user_id table =
     map (\<lambda>r. \<lparr>sel_id = txn_id r, sel_budget_id = txn_budget_id r,
                sel_category_id = txn_category_id r, sel_amount = txn_amount r,
                sel_currency = txn_currency r, sel_occurred_on = txn_occurred_on r\<rparr>)
       (filter (\<lambda>r. txn_user_id r = user_id \<and> txn_type r = ''expense'') table)"

text \<open>An entry of the list \<^verbatim>\<open>transactions\<close> built at lines 1815--1831.\<close>

record txn =
  budget_id :: "int option"
  category_id :: "int option"
  occurred_on :: int
  amount_pln :: real

text \<open>\<^verbatim>\<open>datetime.fromisoformat(s).date()\<close>, as a day number; \<open>None\<close> is \<^verbatim>\<open>ValueError\<close>.\<close>

definition day_of :: "pydatetime \<Rightarrow> int" where
  "day_of d = (case d of Naive t \<Rightarrow> t div (86400 * 1000000) | Aware t \<Rightarrow> t div (86400 * 1000000))"

definition parse_day :: "env \<Rightarrow> string \<Rightarrow> int option" where
  "parse_day E s = map_option day_of (fromisoformat E s)"

text \<open>\<^verbatim>\<open>x or BASE_CURRENCY\<close> and \<^verbatim>\<open>x or ''\<close> on an optional string.\<close>

definition or_str :: "string option \<Rightarrow> string \<Rightarrow> string" where
  "or_str x d = (case x of None \<Rightarrow> d | Some s \<Rightarrow> if s = [] then d else s)"

text \<open>
  Lines 1815--1831: every selected row whose date parses is converted with
  \<^verbatim>\<open>convert_to_base(float(txn.get('amount') or 0), txn.get('currency') or BASE_CURRENCY)\<close>.
\<close>

fun load_transactions :: "env \<Rightarrow> selected_txn list \<Rightarrow> world \<Rightarrow> error + (txn list \<times> world)" where
  "load_transactions E [] w = Inr ([], w)"
| "load_transactions E (r # rest) w =
     (case parse_day E (take 10 (sel_occurred_on r)) of
        None \<Rightarrow> load_transactions E rest w
      | Some occurred_date \<Rightarrow>
          (case convert_to_base E (sel_amount r) (Some (or_str (sel_currency r) BASE_CURRENCY)) w of
             Inl e \<Rightarrow> Inl e
           | Inr (a, w1) \<Rightarrow>
               (case load_transactions E rest w1 of
                  Inl e \<Rightarrow> Inl e
                | Inr (ts, w2) \<Rightarrow>
                    Inr (\<lparr>budget_id = sel_budget_id r, category_id = sel_category_id r,
                          occurred_on = occurred_date, amount_pln = a\<rparr> # ts, w2))))"

text \<open>
  Lines 1834--1843: the window of a budget. \<^verbatim>\<open>month_start\<close> and \<^verbatim>\<open>month_end\<close> are the
  first and last day of the current month; a missing bound is their \<^verbatim>\<open>isoformat()\<close>,
  which parses back to the same day.
\<close>

definition window_bound :: "env \<Rightarrow> string option \<Rightarrow> int \<Rightarrow> int" where
  "window_bound E bound month_day =
     (case bound of
        None \<Rightarrow> month_day
      | Some s \<Rightarrow>
          if s = [] then month_day
          else (case parse_day E s of None \<Rightarrow> month_day | Some d \<Rightarrow> d))"

text \<open>\<^verbatim>\<open>budget['category_id']\<close> as a condition: \<^verbatim>\<open>None\<close> and \<^verbatim>\<open>0\<close> are false.\<close>

definition has_category :: "budget_row \<Rightarrow> bool" where
  "has_category b = (case bud_category_id b of None \<Rightarrow> False | Some c \<Rightarrow> c \<noteq> 0)"

text \<open>
  Lines 1850--1858, one turn of the inner loop over the accumulators
  \<^verbatim>\<open>(spent_pln, total_transactions, fallback_spent_pln, fallback_total)\<close>.
\<close>

definition budget_step ::
  "budget_row \<Rightarrow> int \<Rightarrow> int \<Rightarrow> txn \<Rightarrow> real \<times> nat \<times> real \<times> nat \<Rightarrow> real \<times> nat \<times> real \<times> nat" where
  "budget_step b start_d end_d t acc =
     (case acc of (spent_pln, total_transactions, fallback_spent_pln, fallback_total) \<Rightarrow>
        if occurred_on t < start_d \<or> occurred_on t > end_d then acc
        else if budget_id t = Some (bud_id b)
             then (spent_pln + amount_pln t, total_transactions + 1,
                   fallback_spent_pln, fallback_total)
        else if has_category b \<and> budget_id t = None \<and> category_id t = bud_category_id b
             then (spent_pln, total_transactions,
                   fallback_spent_pln + amount_pln t, fallback_total + 1)
        else acc)"

text \<open>Lines 1845--1862: the pair \<^verbatim>\<open>(spent_pln, total_transactions)\<close> of a budget.\<close>

definition budget_spent :: "budget_row \<Rightarrow> int \<Rightarrow> int \<Rightarrow> txn list \<Rightarrow> real \<times> nat" where
  "budget_spent b start_d end_d transactions =
     (case fold (budget_step b start_d end_d) transactions (0, 0, 0, 0) of
        (spent_pln, total_transactions, fallback_spent_pln, fallback_total) \<Rightarrow>
          if spent_pln = 0 \<and> has_category b
          then (fallback_spent_pln, fallback_total)
          else (spent_pln, total_transactions))"

text \<open>
  The two sums as the specification words them: \<open>matched\<close> are the transactions of the
  window whose \<^verbatim>\<open>budget_id\<close> is the budget's id, \<open>fallback\<close> those with no \<^verbatim>\<open>budget_id\<close>
  whose \<^verbatim>\<open>category_id\<close> is the budget's.
\<close>

definition in_window :: "int \<Rightarrow> int \<Rightarrow> txn \<Rightarrow> bool" where
  "in_window start_d end_d t = (start_d \<le> occurred_on t \<and> occurred_on t \<le> end_d)"

definition matched :: "budget_row \<Rightarrow> int \<Rightarrow> int \<Rightarrow> txn list \<Rightarrow> txn list" where
  "matched b start_d end_d transactions =
     filter (\<lambda>t. in_window start_d end_d t \<and> budget_id t = Some (bud_id b)) transactions"

definition fallback :: "budget_row \<Rightarrow> int \<Rightarrow> int \<Rightarrow> txn list \<Rightarrow> txn list" where
  "fallback b start_d end_d transactions =
     filter (\<lambda>t. in_window start_d end_d t \<and> budget_id t = None
                 \<and> category_id t = bud_category_id b) transactions"

section \<open>Budget notifications\<close>

definition BUDGET_ALERT_THRESHOLD :: real where
  "BUDGET_ALERT_THRESHOLD = 9 / 10"

text \<open>The default label \<^verbatim>\<open>'Bud\<dots>et'\<close> of a notification, in UTF-8.\<close>

definition DEFAULT_LABEL :: string where
  "DEFAULT_LABEL = ''Bud'' @ [CHR 0xC5, CHR 0xBC] @ ''et''"

text \<open>
  The dict handed to \<^verbatim>\<open>maybe_send_budget_notification\<close>: the keys it reads.
\<close>

record notify_payload =
  np_id :: int
  np_name :: "string option"
  np_limit_amount :: "real option"
  np_spent_amount :: "real option"
  np_last_notified_at :: "string option"

text \<open>
  The body of a message, before formatting: over the limit (spent, limit), or the
  threshold reached (utilization times 100, what remains).
\<close>

datatype notice = OverLimit real real | ThresholdReached real real

text \<open>The table \<^verbatim>\<open>budgets\<close> and the log that \<^verbatim>\<open>log_budget_notification\<close> writes to.\<close>

record budget_state =
  budgets_table :: "budget_row list"
  notifications :: "(string \<times> notice) list"

text \<open>
  The two clock readings of a call: \<^verbatim>\<open>date.today().isoformat()\<close> (the local date) and
  \<^verbatim>\<open>datetime.utcnow().isoformat()\<close> (the UTC time).
\<close>

record clock =
  today_iso :: string
  utcnow_iso :: string

definition maybe_send_budget_notification ::
  "clock \<Rightarrow> budget_state \<Rightarrow> notify_payload \<Rightarrow> bool \<times> budget_state \<times> notify_payload" where
  "maybe_send_budget_notification clk st budget =
     (let limit = (case np_limit_amount budget of None \<Rightarrow> 0 | Some x \<Rightarrow> x);
          spent = (case np_spent_amount budget of None \<Rightarrow> 0 | Some x \<Rightarrow> x)
      in if limit \<le> 0 then (False, st, budget)
         else (let utilization = spent / limit;
                   over_limit = (spent > limit);
                   threshold_hit = (utilization \<ge> BUDGET_ALERT_THRESHOLD \<or> over_limit)
               in if \<not> threshold_hit then (False, st, budget)
                  else if (case np_last_notified_at budget of
                             None \<Rightarrow> False
                           | Some last_notified \<Rightarrow>
                               last_notified \<noteq> [] \<and> take 10 last_notified = today_iso clk)
                       then (False, st, budget)
                  else (let body = (if over_limit then OverLimit spent limit
                                    else ThresholdReached (utilization * 100) (limit - spent));
                            timestamp = utcnow_iso clk
                        in (True,
                            st\<lparr>notifications :=
                                 notifications st @ [(or_str (np_name budget) DEFAULT_LABEL, body)],
                               budgets_table :=
                                 map (\<lambda>b. if bud_id b = np_id budget
                                          then b\<lparr>last_notified_at := Some timestamp\<rparr>
                                          else b) (budgets_table st)\<rparr>,
                            budget\<lparr>np_last_notified_at := Some timestamp\<rparr>))))"

text \<open>
  Lines 1864--1872: the \<^verbatim>\<open>budgets\<close> handler builds the payload from the row it has just
  read and from the computed \<^verbatim>\<open>spent_pln\<close>.
\<close>

definition notify_payload_of :: "budget_row \<Rightarrow> real \<Rightarrow> notify_payload" where
  "notify_payload_of b spent_pln =
     \<lparr>np_id = bud_id b, np_name = Some (bud_name b), np_limit_amount = Some (limit_amount b),
      np_spent_amount = Some spent_pln, np_last_notified_at = last_notified_at b\<rparr>"

section \<open>Goal handlers\<close>

text \<open>
  The statements of the goal handlers on \<^verbatim>\<open>savings_goals\<close>, with the converted amounts:
  the \<^verbatim>\<open>INSERT\<close> of lines 2072--2083 and the \<^verbatim>\<open>UPDATE ... WHERE id = ? AND user_id = ?\<close>
  of lines 2146--2149 (a column is set when its value is given).
\<close>

definition insert_goal :: "int \<Rightarrow> real \<Rightarrow> real \<Rightarrow> goals_db \<Rightarrow> goals_db" where
  "insert_goal user_id target_pln current_pln db =
     db\<lparr>savings_goals := savings_goals db @
           [\<lparr>sg_id = goal_seq db + 1, sg_user_id = user_id,
             target_amount = target_pln, current_amount = current_pln\<rparr>],
        goal_seq := goal_seq db + 1\<rparr>"

definition update_goal :: "int \<Rightarrow> int \<Rightarrow> real option \<Rightarrow> real option \<Rightarrow> goals_db \<Rightarrow> goals_db" where
  "update_goal gid user_id target_pln current_pln db =
     db\<lparr>savings_goals :=
          map (\<lambda>g. if sg_id g = gid \<and> sg_user_id g = user_id
                   then g\<lparr>target_amount := (case target_pln of None \<Rightarrow> target_amount g | Some t \<Rightarrow> t),
                          current_amount := (case current_pln of None \<Rightarrow> current_amount g | Some c \<Rightarrow> c)\<rparr>
                   else g) (savings_goals db)\<rparr>"

text \<open>
  Lines 2064--2085 of \<^verbatim>\<open>savings_goals\<close> (POST): the amounts of the request are converted
  to the base currency and the row is inserted with them; \<open>current\<close> is
  \<^verbatim>\<open>data.get('current_amount', 0) or 0\<close> and \<open>currency\<close> is the currency of the request or
  of the user. \<open>Inl\<close>: nothing is inserted.
\<close>

definition savings_goals_post ::
  "env \<Rightarrow> int \<Rightarrow> real \<Rightarrow> real option \<Rightarrow> string option \<Rightarrow> world \<Rightarrow> goals_db
     \<Rightarrow> error + (world \<times> goals_db)" where
  "savings_goals_post E user_id target current currency w db =
     (let input_currency = normalize_currency currency BASE_CURRENCY
      in case convert_to_base E target (Some input_currency) w of
           Inl e \<Rightarrow> Inl e
         | Inr (target_pln, w1) \<Rightarrow>
        (case convert_to_base E (case current of None \<Rightarrow> 0 | Some c \<Rightarrow> c)
                (Some input_currency) w1 of
           Inl e \<Rightarrow> Inl e
         | Inr (current_pln, w2) \<Rightarrow>
             Inr (w2, insert_goal user_id target_pln current_pln db)))"

text \<open>A statement on the two tables, in double arithmetic, and a run of statements.\<close>

datatype ledger_op =
    InsertContribution int real
  | UpdateContribution int real
  | DeleteContribution int
  | InsertGoal int real real
  | UpdateGoal int int "real option" "real option"

fun exec_op :: "ledger_op \<Rightarrow> goals_db \<Rightarrow> goals_db" where
  "exec_op (InsertContribution gid amt) db = insert_contribution_double gid amt db"
| "exec_op (UpdateContribution cid amt) db = update_contribution_double cid amt db"
| "exec_op (DeleteContribution cid) db = delete_contribution_double cid db"
| "exec_op (InsertGoal user_id target_pln current_pln) db = insert_goal user_id target_pln current_pln db"
| "exec_op (UpdateGoal gid user_id target_pln current_pln) db = update_goal gid user_id target_pln current_pln db"

text \<open>
  The ledger agrees with the goals: every goal's \<^verbatim>\<open>current_amount\<close> is the sum that the
  query gives for its contributions.
\<close>

definition agrees :: "goals_db \<Rightarrow> bool" where
  "agrees db = list_all (\<lambda>g. current_amount g = contributed db (sg_id g)) (savings_goals db)"

text \<open>An amount that is a whole number and not negative.\<close>

definition whole :: "real \<Rightarrow> bool" where
  "whole x = (0 \<le> x \<and> of_int \<lfloor>x\<rfloor> = x)"

text \<open>
  The statements under which the agreement is kept: a contribution of a whole amount to a
  goal that exists (the check of lines 2175--2178), a whole new amount for a contribution,
  both leaving the total of the goal at \<open>2 ^ 53\<close> at most; any delete of a contribution; a
  goal inserted with \<^verbatim>\<open>current_amount = 0\<close>; a goal update that leaves \<^verbatim>\<open>current_amount\<close>
  alone.
\<close>

fun plain_op :: "goals_db \<Rightarrow> ledger_op \<Rightarrow> bool" where
  "plain_op db (InsertContribution gid amt) =
     (whole amt \<and> gid \<in> set (map sg_id (savings_goals db))
      \<and> contributed db gid + amt \<le> 2 ^ 53)"
| "plain_op db (UpdateContribution cid amt) =
     (whole amt
      \<and> list_all (\<lambda>c. sgc_id c = cid
                       \<longrightarrow> contributed db (goal_id c) - sgc_amount c + amt \<le> 2 ^ 53)
            (savings_goal_contributions db))"
| "plain_op db (DeleteContribution cid) = True"
| "plain_op db (InsertGoal user_id target_pln current_pln) = (current_pln = 0)"
| "plain_op db (UpdateGoal gid user_id target_pln current_pln) = (current_pln = None)"

fun run_plain :: "ledger_op list \<Rightarrow> goals_db \<Rightarrow> goals_db option" where
  "run_plain [] db = Some db"
| "run_plain (op # ops) db = (if plain_op db op then run_plain ops (exec_op op db) else None)"

text \<open>Any run of statements.\<close>

definition run :: "ledger_op list \<Rightarrow> goals_db \<Rightarrow> goals_db" where
  "run ops db = fold exec_op ops db"

text \<open>
  What such a run keeps true of the two tables: the amounts are whole, the ids of the
  contributions differ and come from the sequence, no id of a goal is ahead of its
  sequence, and every goal's \<^verbatim>\<open>current_amount\<close> is the exact sum of its contributions, which
  is \<open>2 ^ 53\<close> at most.
\<close>

definition ledger_inv :: "goals_db \<Rightarrow> bool" where
  "ledger_inv db =
     (list_all (\<lambda>c. whole (sgc_amount c) \<and> sgc_id c \<le> contribution_seq db
                     \<and> goal_id c \<le> goal_seq db
                     \<and> csum (savings_goal_contributions db) (goal_id c) \<le> 2 ^ 53)
        (savings_goal_contributions db)
      \<and> distinct (map sgc_id (savings_goal_contributions db))
      \<and> list_all (\<lambda>g. sg_id g \<le> goal_seq db
                       \<and> current_amount g = csum (savings_goal_contributions db) (sg_id g))
          (savings_goals db))"

subsection \<open>The snapshot in the cache file\<close>















text \<open>
  The exceptions that \<^verbatim>\<open>ensure_currency_rates\<close> lets through to its caller: what the
  code outside the \<^verbatim>\<open>try\<close> raises and the handlers around it do not name.
\<close>

definition escapes :: "error \<Rightarrow> bool" where
  "escapes e = (e = AttributeError \<or> e = TypeError \<or> e = OverflowError \<or> e = IntegrityError
                \<or> e = UnicodeDecodeError \<or> e = RecursionError)"

section \<open>Sample data\<close>

text \<open>
  A machine that is offline: every request fails, the clock reads 10 May 2024 (day 19853),
  the only date string it is asked to parse is that day's.
\<close>

definition offline :: env where
  "offline =
     \<lparr>float_of_str = (\<lambda>s. None),
      fromisoformat = (\<lambda>s. if s = ''2024-05-10'' then Some (Naive 1715299200000000)
                           else if s = ''2024-05-01T10:00:00'' then Some (Naive 1714557600000000)
                           else None),
      outside = (\<lambda>n. \<lparr>obs_now = 1715299200000000, obs_now_iso = ''2024-05-10T00:00:00'',
                        obs_fetch = NetworkError, obs_fetched_iso = ''2024-05-10T00:00:01'',
                        obs_cache_writable = True\<rparr>)\<rparr>"




text \<open>A rate table fetched the day before, with the euro at 4.50, and no cache file.\<close>

definition euro_world :: world where
  "euro_world =
     \<lparr>currency_rates =
        [\<lparr>currency_code = ''PLN'', rate_to_pln = 1, fetched_at = JStr ''2024-05-09T08:00:00''\<rparr>,
         \<lparr>currency_code = ''EUR'', rate_to_pln = 9 / 2, fetched_at = JStr ''2024-05-09T08:00:00''\<rparr>,
         \<lparr>currency_code = ''XXX'', rate_to_pln = 0, fetched_at = JStr ''2024-05-09T08:00:00''\<rparr>],
      cache = NoFile, tick = 0\<rparr>"


text \<open>Snapshots of the same day, with one rate each.\<close>

definition snapshot_with :: "string \<Rightarrow> json \<Rightarrow> json" where
  "snapshot_with code v =
     JObj [(''fetched_at'', JStr ''2024-05-01T10:00:00''), (''rates'', JObj [(code, v)])]"

text \<open>A machine whose request succeeds with a table that lists the base currency.\<close>

definition table_with_pln :: env where
  "table_with_pln =
     \<lparr>float_of_str = (\<lambda>s. None),
      fromisoformat = (\<lambda>s. None),
      outside = (\<lambda>n. \<lparr>obs_now = 1715299200000000, obs_now_iso = ''2024-05-10T00:00:00'',
                        obs_fetch = Payload (JArr [JObj [(''rates'', JArr
                          [JObj [(''code'', JStr ''PLN''), (''mid'', JNum 5)],
                           JObj [(''code'', JStr ''USD''), (''mid'', JNum 4)]])]]),
                        obs_fetched_iso = ''2024-05-10T00:00:01'',
                        obs_cache_writable = False\<rparr>)\<rparr>"

text \<open>The two goal tables before anything is stored.\<close>

definition empty_goals_db :: goals_db where
  "empty_goals_db =
     \<lparr>savings_goals = [], savings_goal_contributions = [], goal_seq = 0, contribution_seq = 0\<rparr>"

text \<open>A budget of 1000 that has not notified yet.\<close>

definition food_budget :: budget_row where
  "food_budget =
     \<lparr>bud_id = 1, bud_user_id = 1, bud_category_id = Some 3, bud_name = ''food'',
      limit_amount = 1000, start_date = None, end_date = None, last_notified_at = None\<rparr>"

section \<open>Properties of the contribution triggers\<close>

lemma fold_guarded:
  "fold (\<lambda>c gs. if P c then T c gs else gs) cs gs0 = fold T (filter P cs) gs0"
  by (induction cs arbitrary: gs0) simp_all

text \<open>
  Claim C9. Deleting the contribution row \<open>c\<close> (the only row with its id, as the primary
  key guarantees) removes it from the ledger and sets the current amount of every goal row
  with id \<open>goal_id c\<close> from \<open>C\<close> to \<open>max (C - A) 0\<close>, where \<open>A\<close> is the amount of \<open>c\<close>; other
  goals are untouched, and the new amount is never negative, also when \<open>A > C\<close>.
\<close>

theorem delete_contribution_floor:
  assumes "filter (\<lambda>x. sgc_id x = sgc_id c) (savings_goal_contributions db) = [c]"
  shows "savings_goals (delete_contribution (sgc_id c) db) =
           map (\<lambda>g. if sg_id g = goal_id c
                    then g\<lparr>current_amount := max (current_amount g - sgc_amount c) 0\<rparr>
                    else g) (savings_goals db)
       \<and> savings_goal_contributions (delete_contribution (sgc_id c) db) =
           filter (\<lambda>x. sgc_id x \<noteq> sgc_id c) (savings_goal_contributions db)
       \<and> (\<forall>g \<in> set (savings_goals (delete_contribution (sgc_id c) db)).
             sg_id g = goal_id c \<longrightarrow> 0 \<le> current_amount g)"
proof -
  have eq: "savings_goals (delete_contribution (sgc_id c) db) =
           map (\<lambda>g. if sg_id g = goal_id c
                    then g\<lparr>current_amount := max (current_amount g - sgc_amount c) 0\<rparr>
                    else g) (savings_goals db)"
    using assms
    by (simp add: delete_contribution_def fold_guarded
        trg_savings_goal_contributions_delete_def)
  have nonneg: "\<forall>g \<in> set (savings_goals (delete_contribution (sgc_id c) db)).
           sg_id g = goal_id c \<longrightarrow> 0 \<le> current_amount g"
    unfolding eq by auto
  have rows: "savings_goal_contributions (delete_contribution (sgc_id c) db) =
           filter (\<lambda>x. sgc_id x \<noteq> sgc_id c) (savings_goal_contributions db)"
    by (simp add: delete_contribution_def)
  from eq rows nonneg show ?thesis by blast
qed

theorem delete_contribution_floor_witness:
  "savings_goals (delete_contribution 7
      \<lparr>savings_goals = [\<lparr>sg_id = 1, sg_user_id = 1, target_amount = 100, current_amount = 10\<rparr>],
       savings_goal_contributions = [\<lparr>sgc_id = 7, goal_id = 1, sgc_amount = 25\<rparr>],
       goal_seq = 1, contribution_seq = 7\<rparr>)
   = [\<lparr>sg_id = 1, sg_user_id = 1, target_amount = 100, current_amount = 0\<rparr>]"
  using delete_contribution_floor
    [of "\<lparr>sgc_id = 7, goal_id = 1, sgc_amount = 25\<rparr>"
        "\<lparr>savings_goals = [\<lparr>sg_id = 1, sg_user_id = 1, target_amount = 100, current_amount = 10\<rparr>],
          savings_goal_contributions = [\<lparr>sgc_id = 7, goal_id = 1, sgc_amount = 25\<rparr>],
          goal_seq = 1, contribution_seq = 7\<rparr>"]
  by simp

text \<open>
  Claim C10. Updating the amount of the contribution row \<open>c\<close> from \<open>O\<close> to \<open>N\<close> sets the
  current amount of every goal row with id \<open>goal_id c\<close> from \<open>C\<close> to exactly \<open>C - O + N\<close>:
  the update trigger has no floor, so whenever \<open>O - N > C\<close> the stored amount is negative
  (the delete trigger would have stored 0).
\<close>

theorem update_contribution_no_floor:
  assumes "filter (\<lambda>x. sgc_id x = sgc_id c) (savings_goal_contributions db) = [c]"
  shows "savings_goals (update_contribution (sgc_id c) n db) =
           map (\<lambda>g. if sg_id g = goal_id c
                    then g\<lparr>current_amount := current_amount g - sgc_amount c + n\<rparr>
                    else g) (savings_goals db)
       \<and> (\<forall>g \<in> set (savings_goals db).
             sg_id g = goal_id c \<and> sgc_amount c - n > current_amount g \<longrightarrow>
               (\<exists>g' \<in> set (savings_goals (update_contribution (sgc_id c) n db)).
                  sg_id g' = sg_id g \<and>
                  current_amount g' = current_amount g - sgc_amount c + n \<and>
                  current_amount g' < 0))"
proof -
  have eq: "savings_goals (update_contribution (sgc_id c) n db) =
           map (\<lambda>g. if sg_id g = goal_id c
                    then g\<lparr>current_amount := current_amount g - sgc_amount c + n\<rparr>
                    else g) (savings_goals db)"
    using assms
    by (simp add: update_contribution_def fold_guarded
        trg_savings_goal_contributions_update_def)
  have neg: "\<exists>g' \<in> set (savings_goals (update_contribution (sgc_id c) n db)).
                  sg_id g' = sg_id g \<and>
                  current_amount g' = current_amount g - sgc_amount c + n \<and>
                  current_amount g' < 0"
    if "g \<in> set (savings_goals db)" "sg_id g = goal_id c"
       "sgc_amount c - n > current_amount g" for g
  proof -
    let ?g' = "g\<lparr>current_amount := current_amount g - sgc_amount c + n\<rparr>"
    have "?g' \<in> set (savings_goals (update_contribution (sgc_id c) n db))"
      unfolding eq using that(1,2) by (auto simp: image_iff intro!: bexI [of _ g])
    moreover have "sg_id ?g' = sg_id g" by simp
    moreover have "current_amount ?g' = current_amount g - sgc_amount c + n" by simp
    moreover have "current_amount ?g' < 0" using that(3) by simp
    ultimately show ?thesis by blast
  qed
  from eq neg show ?thesis by blast
qed

theorem update_contribution_no_floor_witness:
  "savings_goals (update_contribution 7 5
      \<lparr>savings_goals = [\<lparr>sg_id = 1, sg_user_id = 1, target_amount = 100, current_amount = 10\<rparr>],
       savings_goal_contributions = [\<lparr>sgc_id = 7, goal_id = 1, sgc_amount = 25\<rparr>],
       goal_seq = 1, contribution_seq = 7\<rparr>)
   = [\<lparr>sg_id = 1, sg_user_id = 1, target_amount = 100, current_amount = - 10\<rparr>]"
  using update_contribution_no_floor
    [of "\<lparr>sgc_id = 7, goal_id = 1, sgc_amount = 25\<rparr>"
        "\<lparr>savings_goals = [\<lparr>sg_id = 1, sg_user_id = 1, target_amount = 100, current_amount = 10\<rparr>],
          savings_goal_contributions = [\<lparr>sgc_id = 7, goal_id = 1, sgc_amount = 25\<rparr>],
          goal_seq = 1, contribution_seq = 7\<rparr>" 5]
  by simp

section \<open>Properties of the budget aggregation\<close>

lemma budget_step_cases:
  "budget_step b s e t (a, n, f, m) =
      (if in_window s e t \<and> budget_id t = Some (bud_id b)
       then (a + amount_pln t, n + 1, f, m)
       else if in_window s e t \<and> has_category b \<and> budget_id t = None
               \<and> category_id t = bud_category_id b
       then (a, n, f + amount_pln t, m + 1)
       else (a, n, f, m))"
  unfolding budget_step_def in_window_def by auto

lemma fold_budget_step:
  "fold (budget_step b s e) ts (a, n, f, m) =
     (a + sum_list (map amount_pln (matched b s e ts)),
      n + length (matched b s e ts),
      f + (if has_category b then sum_list (map amount_pln (fallback b s e ts)) else 0),
      m + (if has_category b then length (fallback b s e ts) else 0))"
proof (induction ts arbitrary: a n f m)
  case Nil
  then show ?case by (simp add: matched_def fallback_def)
next
  case (Cons t ts)
  show ?case
    unfolding fold_simps comp_def budget_step_cases
    by (simp add: Cons.IH matched_def fallback_def)
qed

text \<open>
  Claim C6. For a budget and the list of converted expense transactions, the reported
  pair (spent amount, transaction count) is the sum and the number of the fallback
  transactions (in the window, no \<^verbatim>\<open>budget_id\<close>, the budget's \<^verbatim>\<open>category_id\<close>) exactly when
  the sum of the matched transactions (in the window, the budget's id) is zero and the
  budget has a category; in every other case it is the sum and the number of the matched
  ones. \<open>has_category\<close> is the truth value of \<^verbatim>\<open>budget['category_id']\<close>.
\<close>

theorem budget_spent_fallback:
  "budget_spent b s e ts =
     (if sum_list (map amount_pln (matched b s e ts)) = 0 \<and> has_category b
      then (sum_list (map amount_pln (fallback b s e ts)), length (fallback b s e ts))
      else (sum_list (map amount_pln (matched b s e ts)), length (matched b s e ts)))"
  by (simp add: budget_spent_def fold_budget_step)

theorem budget_spent_fallback_witness:
  "budget_spent
     \<lparr>bud_id = 1, bud_user_id = 1, bud_category_id = Some 3, bud_name = ''food'',
      limit_amount = 1000, start_date = None, end_date = None, last_notified_at = None\<rparr>
     10 40
     [\<lparr>budget_id = None, category_id = Some 3, occurred_on = 12, amount_pln = 40\<rparr>,
      \<lparr>budget_id = None, category_id = Some 3, occurred_on = 20, amount_pln = 60\<rparr>,
      \<lparr>budget_id = None, category_id = Some 4, occurred_on = 20, amount_pln = 7\<rparr>,
      \<lparr>budget_id = None, category_id = Some 3, occurred_on = 41, amount_pln = 9\<rparr>]
   = (100, 2)"
  using budget_spent_fallback
    [of "\<lparr>bud_id = 1, bud_user_id = 1, bud_category_id = Some 3, bud_name = ''food'',
      limit_amount = 1000, start_date = None, end_date = None, last_notified_at = None\<rparr>"
     10 40
     "[\<lparr>budget_id = None, category_id = Some 3, occurred_on = 12, amount_pln = 40\<rparr>,
      \<lparr>budget_id = None, category_id = Some 3, occurred_on = 20, amount_pln = 60\<rparr>,
      \<lparr>budget_id = None, category_id = Some 4, occurred_on = 20, amount_pln = 7\<rparr>,
      \<lparr>budget_id = None, category_id = Some 3, occurred_on = 41, amount_pln = 9\<rparr>]"]
  by (simp add: matched_def fallback_def in_window_def has_category_def)

text \<open>
  Claim C7 (the code differs). The handler selects six columns, \<^verbatim>\<open>converted_amount\<close> not
  among them, and converts \<^verbatim>\<open>amount\<close> at the rates of the moment for every row. Here an
  expense of 10 EUR was stored with \<^verbatim>\<open>converted_amount = 43\<close> (the euro at 4.30 when it
  was written); with the euro now at 4.50 the budget is charged 45, not the stored 43.
\<close>

theorem budgets_recomputes_converted_amount:
  "load_transactions offline
     (select_expenses 1
        [\<lparr>txn_id = 1, txn_user_id = 1, txn_type = ''expense'', txn_category_id = None,
          txn_budget_id = Some 1, txn_amount = 10, txn_currency = Some ''EUR'',
          converted_amount = Some 43, txn_occurred_on = ''2024-05-10''\<rparr>])
     euro_world
   = Inr ([\<lparr>budget_id = Some 1, category_id = None, occurred_on = 19853, amount_pln = 45\<rparr>],
          euro_world\<lparr>tick := 1\<rparr>)
   \<and> budget_spent food_budget 19844 19874
       [\<lparr>budget_id = Some 1, category_id = None, occurred_on = 19853, amount_pln = 45\<rparr>]
     = (45, 1)"
  by (simp add: offline_def euro_world_def food_budget_def select_expenses_def parse_day_def
      day_of_def convert_to_base_def convert_amount_def or_str_def BASE_CURRENCY_def
      normalize_currency_def strip_def is_space_def upper_def upper_char_def or_pln_upper_def
      get_exchange_rate_def ensure_currency_rates_def read_cache_def fallback_to_cache_def
      select_rate_def Let_def budget_spent_def budget_step_def has_category_def)

section \<open>Properties of the budget notification\<close>

lemma stamped_today_is_silent:
  assumes "np_last_notified_at budget = Some stamp" and "stamp \<noteq> []"
    and "take 10 stamp = today_iso clk"
  shows "maybe_send_budget_notification clk st budget = (False, st, budget)"
  using assms by (simp add: maybe_send_budget_notification_def Let_def)

text \<open>
  When the UTC date of the stamp is the local date of the later call, the later call is
  silent: it returns false and changes neither the table nor the log.
\<close>

lemma notified_then_silent:
  assumes first: "maybe_send_budget_notification clk1 st (notify_payload_of b spent1) = (True, st1, p1)"
    and row: "b \<in> set (budgets_table st)"
    and utc_is_local: "take 10 (utcnow_iso clk1) = today_iso clk2" "utcnow_iso clk1 \<noteq> []"
  shows "b\<lparr>last_notified_at := Some (utcnow_iso clk1)\<rparr> \<in> set (budgets_table st1)
       \<and> maybe_send_budget_notification clk2 st1
           (notify_payload_of (b\<lparr>last_notified_at := Some (utcnow_iso clk1)\<rparr>) spent2)
         = (False, st1, notify_payload_of (b\<lparr>last_notified_at := Some (utcnow_iso clk1)\<rparr>) spent2)"
proof -
  have st1: "budgets_table st1 =
      map (\<lambda>r. if bud_id r = bud_id b then r\<lparr>last_notified_at := Some (utcnow_iso clk1)\<rparr> else r)
        (budgets_table st)"
    using first
    by (auto simp: maybe_send_budget_notification_def Let_def notify_payload_of_def
        split: if_splits option.splits)
  have "b\<lparr>last_notified_at := Some (utcnow_iso clk1)\<rparr> \<in> set (budgets_table st1)"
    unfolding st1 using row by (auto simp: image_iff intro!: bexI [of _ b])
  moreover have "maybe_send_budget_notification clk2 st1
           (notify_payload_of (b\<lparr>last_notified_at := Some (utcnow_iso clk1)\<rparr>) spent2)
         = (False, st1, notify_payload_of (b\<lparr>last_notified_at := Some (utcnow_iso clk1)\<rparr>) spent2)"
    by (rule stamped_today_is_silent [where stamp = "utcnow_iso clk1"])
       (simp_all add: notify_payload_of_def utc_is_local)
  ultimately show ?thesis by blast
qed

text \<open>
  Claim C3 (the code differs). The stamp is \<^verbatim>\<open>datetime.utcnow().isoformat()\<close>, the test
  compares its first ten characters with \<^verbatim>\<open>date.today().isoformat()\<close>, the local date.
  On a machine two hours ahead of UTC, at 00:30 and 00:31 local time on 2 May 2024, the
  UTC date is still 1 May: the first call notifies and stamps \<^verbatim>\<open>2024-05-01T22:30:00\<close>, and
  the second call, one minute later on the same local day, for the row as stamped,
  notifies again.
\<close>

theorem notified_twice_on_one_day:
  "maybe_send_budget_notification
     \<lparr>today_iso = ''2024-05-02'', utcnow_iso = ''2024-05-01T22:30:00''\<rparr>
     \<lparr>budgets_table = [food_budget], notifications = []\<rparr>
     (notify_payload_of food_budget 950)
   = (True,
      \<lparr>budgets_table = [food_budget\<lparr>last_notified_at := Some ''2024-05-01T22:30:00''\<rparr>],
       notifications = [(''food'', ThresholdReached 95 50)]\<rparr>,
      (notify_payload_of food_budget 950)\<lparr>np_last_notified_at := Some ''2024-05-01T22:30:00''\<rparr>)
   \<and> maybe_send_budget_notification
     \<lparr>today_iso = ''2024-05-02'', utcnow_iso = ''2024-05-01T22:31:00''\<rparr>
     \<lparr>budgets_table = [food_budget\<lparr>last_notified_at := Some ''2024-05-01T22:30:00''\<rparr>],
      notifications = [(''food'', ThresholdReached 95 50)]\<rparr>
     (notify_payload_of (food_budget\<lparr>last_notified_at := Some ''2024-05-01T22:30:00''\<rparr>) 950)
   = (True,
      \<lparr>budgets_table = [food_budget\<lparr>last_notified_at := Some ''2024-05-01T22:31:00''\<rparr>],
       notifications = [(''food'', ThresholdReached 95 50), (''food'', ThresholdReached 95 50)]\<rparr>,
      (notify_payload_of food_budget 950)\<lparr>np_last_notified_at := Some ''2024-05-01T22:31:00''\<rparr>)"
  by (simp add: maybe_send_budget_notification_def food_budget_def notify_payload_of_def
      BUDGET_ALERT_THRESHOLD_def or_str_def Let_def)

section \<open>Properties of the rate engine\<close>

subsection \<open>Which exceptions can escape\<close>

lemma py_get_error: "py_get x k = Inl e \<Longrightarrow> e = AttributeError"
  by (cases x) auto

lemma py_items_error: "py_items x = Inl e \<Longrightarrow> e = AttributeError"
  by (cases x) auto

lemma py_iter_error: "py_iter x = Inl e \<Longrightarrow> e = TypeError"
  by (cases x) auto

lemma py_upper_error: "py_upper x = Inl e \<Longrightarrow> e = AttributeError"
  by (cases x) auto

lemma py_fromisoformat_error: "py_fromisoformat E x = Inl e \<Longrightarrow> e = TypeError"
  by (cases x) auto

lemma py_float_error:
  "py_float E x = Inl e \<Longrightarrow> e = TypeError \<or> e = ValueError \<or> e = OverflowError"
  by (cases x) (auto split: option.splits)

lemma sanitize_error: "sanitize E items acc = Inl e \<Longrightarrow> e = OverflowError"
  by (induction E items acc rule: sanitize.induct)
     (auto simp: caught_def split: if_splits sum.splits dest: py_float_error)

lemma store_currency_rates_error:
  "store_currency_rates E rates fetched w = Inl e \<Longrightarrow> escapes e"
  by (auto simp: store_currency_rates_def escapes_def
      split: sum.splits option.splits dest: py_items_error sanitize_error)

lemma extract_rates_error:
  "extract_rates E items acc = Inl e \<Longrightarrow> escapes e"
proof (induction items arbitrary: acc)
  case Nil
  then show ?case by simp
next
  case (Cons item items)
  then show ?case
    by (auto simp: escapes_def caught_def split: sum.splits if_splits
        dest: py_get_error py_upper_error py_float_error)
qed

lemma fresh_cache_error:
  "fresh_cache E ob cd = Inl e \<Longrightarrow> escapes e"
  by (auto simp: fresh_cache_def Let_def escapes_def
      split: sum.splits if_splits option.splits pydatetime.splits
      dest: py_get_error py_fromisoformat_error)

lemma fallback_to_cache_error:
  "fallback_to_cache E ob cache_data w = Inl e \<Longrightarrow> escapes e"
  by (auto simp: fallback_to_cache_def
      split: sum.splits if_splits option.splits
      dest: store_currency_rates_error)
     (auto simp: escapes_def dest: py_get_error)

lemma store_live_rates_error:
  "store_live_rates E ob raw w = Inl e \<Longrightarrow> escapes e"
  by (auto simp: store_live_rates_def
      split: sum.splits if_splits
      dest: extract_rates_error store_currency_rates_error)
     (auto simp: escapes_def dest: py_iter_error)

lemma read_cache_error: "read_cache force w = Inl e \<Longrightarrow> escapes e"
  by (auto simp: read_cache_def escapes_def split: if_splits cache_file.splits)

lemma ensure_currency_rates_error:
  "ensure_currency_rates E force w = Inl e \<Longrightarrow> escapes e"
  unfolding ensure_currency_rates_def Let_def
  by (auto split: sum.splits option.splits if_splits prod.splits
      dest: fresh_cache_error fallback_to_cache_error store_live_rates_error
        store_currency_rates_error read_cache_error)

lemma get_exchange_rate_error:
  "get_exchange_rate E c w = Inl e \<Longrightarrow> escapes e"
  by (auto simp: get_exchange_rate_def split: if_splits sum.splits
      dest: ensure_currency_rates_error)

subsection \<open>Lookup and conversion\<close>

text \<open>
  Claim C4, as the code has it. The normalisation of \<^verbatim>\<open>get_exchange_rate\<close> is \<^verbatim>\<open>upper()\<close>
  alone. For every currency string: when the string is empty or its upper case is \<^verbatim>\<open>PLN\<close>,
  the result is 1.0 and the state is untouched: no refresh, no query. For any other string
  the lookup runs \<^verbatim>\<open>ensure_currency_rates()\<close> first: an exception of the refresh is the
  outcome of the lookup, and when the refresh returns and the table then has no row for
  the upper case of the string, the result is 1.0.
\<close>

theorem get_exchange_rate_fail_open:
  "(currency = [] \<or> upper currency = ''PLN''
      \<longrightarrow> get_exchange_rate E currency w = Inr (1, w))
   \<and> (currency \<noteq> [] \<and> upper currency \<noteq> ''PLN'' \<longrightarrow>
        (\<forall>e. ensure_currency_rates E False w = Inl e
           \<longrightarrow> get_exchange_rate E currency w = Inl e)
      \<and> (\<forall>w'. ensure_currency_rates E False w = Inr w'
              \<and> select_rate (upper currency) (currency_rates w') = None
           \<longrightarrow> get_exchange_rate E currency w = Inr (1, w')))"
  by (auto simp: get_exchange_rate_def)

theorem get_exchange_rate_fail_open_witness:
  "get_exchange_rate offline ''pln'' euro_world = Inr (1, euro_world)
   \<and> get_exchange_rate offline ''usd'' euro_world = Inr (1, euro_world\<lparr>tick := 1\<rparr>)
   \<and> get_exchange_rate offline ''usd'' (euro_world\<lparr>cache := NotUtf8\<rparr>) = Inl UnicodeDecodeError"
proof -
  have refreshed: "ensure_currency_rates offline False euro_world = Inr (euro_world\<lparr>tick := 1\<rparr>)"
    by (simp add: ensure_currency_rates_def Let_def read_cache_def fallback_to_cache_def
        offline_def euro_world_def)
  have raised: "ensure_currency_rates offline False (euro_world\<lparr>cache := NotUtf8\<rparr>)
      = Inl UnicodeDecodeError"
    by (simp add: ensure_currency_rates_def Let_def read_cache_def euro_world_def)
  have unknown: "select_rate (upper ''usd'') (currency_rates (euro_world\<lparr>tick := 1\<rparr>)) = None"
    by (simp add: select_rate_def euro_world_def upper_def upper_char_def)
  have base: "upper ''pln'' = ''PLN''"
    by (simp add: upper_def upper_char_def)
  have other: "upper ''usd'' \<noteq> ''PLN''"
    by (simp add: upper_def upper_char_def)
  from get_exchange_rate_fail_open [of "''pln''" offline euro_world] base
  have "get_exchange_rate offline ''pln'' euro_world = Inr (1, euro_world)"
    by blast
  moreover
  from get_exchange_rate_fail_open [of "''usd''" offline euro_world] refreshed unknown other
  have "get_exchange_rate offline ''usd'' euro_world = Inr (1, euro_world\<lparr>tick := 1\<rparr>)"
    by simp
  moreover
  from get_exchange_rate_fail_open [of "''usd''" offline "euro_world\<lparr>cache := NotUtf8\<rparr>"]
    raised other
  have "get_exchange_rate offline ''usd'' (euro_world\<lparr>cache := NotUtf8\<rparr>) = Inl UnicodeDecodeError"
    by simp
  ultimately show ?thesis by blast
qed

text \<open>
  Claim C4 as stated, for every currency string, does not hold. A currency with no row in
  the table is answered with an exception when the refresh raises: here the cache file
  holds a list, and the lookup of \<^verbatim>\<open>usd\<close> ends in \<^verbatim>\<open>AttributeError\<close>. And a string that
  \<^verbatim>\<open>normalize_currency\<close> turns into \<^verbatim>\<open>PLN\<close> is not the base currency for the lookup, which
  does not strip: \<^verbatim>\<open>' pln'\<close> runs the refresh, the refresh stores the row that the snapshot
  lists under that key, and the lookup returns its rate, 5.0.
\<close>

theorem get_exchange_rate_counterexample:
  "get_exchange_rate offline ''usd''
       \<lparr>currency_rates = [], cache = FileHolds (JArr [JNum 1]), tick = 0\<rparr>
     = Inl AttributeError
   \<and> select_rate (upper ''usd'') [] = None
   \<and> normalize_currency (Some '' pln'') BASE_CURRENCY = ''PLN''
   \<and> get_exchange_rate offline '' pln''
       \<lparr>currency_rates = [], cache = FileHolds (snapshot_with '' pln'' (JNum 5)), tick = 0\<rparr>
     = Inr (5,
        \<lparr>currency_rates =
           [\<lparr>currency_code = ''PLN'', rate_to_pln = 1, fetched_at = JStr ''2024-05-01T10:00:00''\<rparr>,
            \<lparr>currency_code = '' PLN'', rate_to_pln = 5, fetched_at = JStr ''2024-05-01T10:00:00''\<rparr>],
         cache = FileHolds (snapshot_with '' pln'' (JNum 5)), tick = 1\<rparr>)"
proof -
  have first: "get_exchange_rate offline ''usd''
       \<lparr>currency_rates = [], cache = FileHolds (JArr [JNum 1]), tick = 0\<rparr>
     = Inl AttributeError"
    by (simp add: get_exchange_rate_def upper_def upper_char_def ensure_currency_rates_def
        Let_def read_cache_def fresh_cache_def)
  have second: "select_rate (upper ''usd'') [] = None"
    by (simp add: select_rate_def)
  have third: "normalize_currency (Some '' pln'') BASE_CURRENCY = ''PLN''"
    by (simp add: normalize_currency_def BASE_CURRENCY_def strip_def is_space_def
        upper_def upper_char_def)
  have fourth: "get_exchange_rate offline '' pln''
       \<lparr>currency_rates = [], cache = FileHolds (snapshot_with '' pln'' (JNum 5)), tick = 0\<rparr>
     = Inr (5,
        \<lparr>currency_rates =
           [\<lparr>currency_code = ''PLN'', rate_to_pln = 1, fetched_at = JStr ''2024-05-01T10:00:00''\<rparr>,
            \<lparr>currency_code = '' PLN'', rate_to_pln = 5, fetched_at = JStr ''2024-05-01T10:00:00''\<rparr>],
         cache = FileHolds (snapshot_with '' pln'' (JNum 5)), tick = 1\<rparr>)"
    by (simp add: get_exchange_rate_def upper_def upper_char_def ensure_currency_rates_def
        Let_def read_cache_def fresh_cache_def snapshot_with_def offline_def
        CURRENCY_CACHE_TTL_def fallback_to_cache_def store_currency_rates_def
        replace_rates_def insert_or_replace_def select_rate_def)
  from first second third fourth show ?thesis by blast
qed

text \<open>
  Claim C5. For a non-null amount and two currencies whose normalised codes differ: when
  the lookup of the target gives the rate 0, \<^verbatim>\<open>convert_amount\<close> returns the amount times
  the rate of the source and no division takes place. For all inputs, null amount and
  equal codes included, \<^verbatim>\<open>convert_amount\<close> never raises \<^verbatim>\<open>ZeroDivisionError\<close>.
\<close>

theorem convert_amount_zero_rate_guard:
  "(or_pln_upper source \<noteq> or_pln_upper target
      \<and> get_exchange_rate E (or_pln_upper source) w = Inr (rs, w1)
      \<and> get_exchange_rate E (or_pln_upper target) w1 = Inr (0, w2)
     \<longrightarrow> convert_amount E (Some a) source target w = Inr (a * rs, w2))
   \<and> convert_amount E amount source target w \<noteq> Inl ZeroDivisionError"
proof (intro conjI impI)
  assume "or_pln_upper source \<noteq> or_pln_upper target
      \<and> get_exchange_rate E (or_pln_upper source) w = Inr (rs, w1)
      \<and> get_exchange_rate E (or_pln_upper target) w1 = Inr (0, w2)"
  then show "convert_amount E (Some a) source target w = Inr (a * rs, w2)"
    by (simp add: convert_amount_def Let_def)
next
  have lookup: "get_exchange_rate E c v \<noteq> Inl ZeroDivisionError" for c v
    using get_exchange_rate_error [of E c v ZeroDivisionError] by (auto simp: escapes_def)
  show "convert_amount E amount source target w \<noteq> Inl ZeroDivisionError"
  proof
    assume raised: "convert_amount E amount source target w = Inl ZeroDivisionError"
    then show False
      using lookup
      by (auto simp: convert_amount_def Let_def py_truediv_def
          split: option.splits if_splits sum.splits prod.splits)
  qed
qed

theorem convert_amount_zero_rate_guard_witness:
  "convert_amount offline (Some 100) (Some ''eur'') (Some ''xxx'') euro_world
     = Inr (450, euro_world\<lparr>tick := 2\<rparr>)"
proof -
  have codes: "or_pln_upper (Some ''eur'') = ''EUR''" "or_pln_upper (Some ''xxx'') = ''XXX''"
    by (simp_all add: or_pln_upper_def upper_def upper_char_def)
  have source: "get_exchange_rate offline ''EUR'' euro_world = Inr (9 / 2, euro_world\<lparr>tick := 1\<rparr>)"
    by (simp add: get_exchange_rate_def ensure_currency_rates_def Let_def read_cache_def
        fallback_to_cache_def offline_def euro_world_def select_rate_def upper_def upper_char_def)
  have target: "get_exchange_rate offline ''XXX'' (euro_world\<lparr>tick := 1\<rparr>)
      = Inr (0, euro_world\<lparr>tick := 2\<rparr>)"
    by (simp add: get_exchange_rate_def ensure_currency_rates_def Let_def read_cache_def
        fallback_to_cache_def offline_def euro_world_def select_rate_def upper_def upper_char_def)
  from convert_amount_zero_rate_guard
    [of "Some ''eur''" "Some ''xxx''" offline euro_world "9 / 2" "euro_world\<lparr>tick := 1\<rparr>"
        "euro_world\<lparr>tick := 2\<rparr>" 100]
    codes source target
  show ?thesis by simp
qed

subsection \<open>The refresh when the live fetch fails\<close>




















subsection \<open>What a refresh stores for the base currency\<close>

text \<open>
  What does hold of the table after \<^verbatim>\<open>_store_currency_rates\<close>: one row per code, a row
  for \<^verbatim>\<open>PLN\<close>, and the rate 1.0 in it when no key of the source is \<^verbatim>\<open>PLN\<close> in upper case.
\<close>

lemma sanitize_distinct:
  "sanitize E items acc = Inr s \<Longrightarrow> distinct (map fst acc) \<Longrightarrow> distinct (map fst s)"
  by (induction E items acc rule: sanitize.induct)
     (auto simp: distinct_update split: sum.splits if_splits)

lemma sanitize_keeps_keys:
  "sanitize E items acc = Inr s \<Longrightarrow> k \<in> fst ` set acc \<Longrightarrow> k \<in> fst ` set s"
  by (induction E items acc rule: sanitize.induct)
     (auto simp: dom_update split: sum.splits if_splits)

lemma sanitize_base_rate:
  assumes "sanitize E items acc = Inr s"
    and "map_of acc ''PLN'' = Some (Finite 1)"
    and "list_all (\<lambda>kv. upper (fst kv) \<noteq> ''PLN'') items"
  shows "map_of s ''PLN'' = Some (Finite 1)"
  using assms
  by (induction E items acc rule: sanitize.induct)
     (auto simp: update_conv' split: sum.splits if_splits)

lemma finite_rates_keys: "finite_rates s = Some rows \<Longrightarrow> map fst rows = map fst s"
  by (induction s arbitrary: rows rule: finite_rates.induct) auto

lemma finite_rates_map_of:
  "finite_rates s = Some rows \<Longrightarrow> map_of s k = Some (Finite r) \<Longrightarrow> map_of rows k = Some r"
  by (induction s arbitrary: rows rule: finite_rates.induct) (auto split: if_splits)

lemma fold_insert_rows:
  assumes "distinct (map fst kvs)"
    and "fst ` set kvs \<inter> currency_code ` set table = {}"
  shows "fold (\<lambda>(code, rate) table.
             insert_or_replace
               \<lparr>currency_code = code, rate_to_pln = rate, fetched_at = stamp\<rparr> table) kvs table
       = table @ map (row_of stamp) kvs"
  using assms
proof (induction kvs arbitrary: table)
  case Nil
  then show ?case by simp
next
  case (Cons kv kvs)
  obtain code rate where kv: "kv = (code, rate)" by (cases kv)
  have fresh: "filter (\<lambda>r. currency_code r \<noteq> code) table = table"
    using Cons.prems(2) kv by (auto simp: filter_id_conv)
  have step: "insert_or_replace \<lparr>currency_code = code, rate_to_pln = rate, fetched_at = stamp\<rparr> table
      = table @ [row_of stamp kv]"
    by (simp add: insert_or_replace_def fresh row_of_def kv)
  have disjoint: "fst ` set kvs \<inter> currency_code ` set (table @ [row_of stamp kv]) = {}"
    using Cons.prems by (auto simp: row_of_def kv)
  show ?case
    using Cons.IH [OF _ disjoint] Cons.prems(1)
    by (simp add: kv step [unfolded kv])
qed

lemma replace_rates_rows:
  "distinct (map fst kvs) \<Longrightarrow> replace_rates kvs stamp = map (row_of stamp) kvs"
  using fold_insert_rows [of kvs "[]" stamp] by (simp add: replace_rates_def)

lemma stored_rows:
  assumes "store_currency_rates E rates stamp w = Inr w'"
  shows "\<exists>items s rows. rates = JObj items
           \<and> sanitize E items [(''PLN'', Finite 1)] = Inr s
           \<and> finite_rates s = Some rows
           \<and> distinct (map fst rows)
           \<and> currency_rates w' = map (row_of stamp) rows"
proof -
  from assms obtain items s rows where items: "rates = JObj items"
    and s: "sanitize E items [(''PLN'', Finite 1)] = Inr s"
    and rows: "finite_rates s = Some rows"
    and w': "w' = w\<lparr>currency_rates := replace_rates rows stamp\<rparr>"
    by (cases rates) (auto simp: store_currency_rates_def split: sum.splits option.splits)
  have "distinct (map fst s)" by (rule sanitize_distinct [OF s]) simp
  then have d: "distinct (map fst rows)" by (simp add: finite_rates_keys [OF rows])
  with items s rows w' show ?thesis by (simp add: replace_rates_rows)
qed

lemma stored_table:
  assumes "store_currency_rates E rates stamp w = Inr w'"
  shows "distinct (map currency_code (currency_rates w'))
       \<and> ''PLN'' \<in> set (map currency_code (currency_rates w'))"
proof -
  from stored_rows [OF assms] obtain items s rows
    where s: "sanitize E items [(''PLN'', Finite 1)] = Inr s"
    and rows: "finite_rates s = Some rows" and d: "distinct (map fst rows)"
    and table: "currency_rates w' = map (row_of stamp) rows"
    by blast
  have "''PLN'' \<in> fst ` set s" by (rule sanitize_keeps_keys [OF s]) simp
  then have k: "''PLN'' \<in> set (map fst rows)" by (simp add: finite_rates_keys [OF rows])
  have codes: "map currency_code (map (row_of stamp) rows) = map fst rows"
    by (simp add: row_of_def o_def)
  show ?thesis
    unfolding table codes using d k by simp
qed

lemma stored_base_rate:
  assumes "store_currency_rates E (JObj items) stamp w = Inr w'"
    and "list_all (\<lambda>kv. upper (fst kv) \<noteq> ''PLN'') items"
  shows "select_rate ''PLN'' (currency_rates w') = Some 1"
proof -
  from stored_rows [OF assms(1)] obtain s rows
    where s: "sanitize E items [(''PLN'', Finite 1)] = Inr s"
    and rows: "finite_rates s = Some rows"
    and table: "currency_rates w' = map (row_of stamp) rows"
    by auto
  have "map_of s ''PLN'' = Some (Finite 1)"
    by (rule sanitize_base_rate [OF s _ assms(2)]) simp
  then have m: "map_of rows ''PLN'' = Some 1"
    by (rule finite_rates_map_of [OF rows])
  have "find (\<lambda>r. currency_code r = c) (map (row_of stamp) kvs)
      = map_option (\<lambda>r. row_of stamp (c, r)) (map_of kvs c)" for c kvs
    by (induction kvs) (auto simp: row_of_def)
  then show ?thesis
    by (simp add: select_rate_def table m row_of_def)
qed

text \<open>
  Claim C2 (the code differs). \<^verbatim>\<open>sanitized\<close> starts with \<^verbatim>\<open>PLN\<close> at 1.0, but the loop then
  assigns every entry of the source, one for \<^verbatim>\<open>PLN\<close> included. When the table of the live
  source lists \<^verbatim>\<open>PLN\<close> at 5.0, the refresh returns and the row of \<^verbatim>\<open>PLN\<close> holds 5.0; the same
  happens for a snapshot whose rates list \<^verbatim>\<open>pln\<close>.
\<close>

theorem refresh_overwrites_base_rate:
  "ensure_currency_rates table_with_pln True \<lparr>currency_rates = [], cache = NoFile, tick = 0\<rparr>
     = Inr \<lparr>currency_rates =
              [\<lparr>currency_code = ''PLN'', rate_to_pln = 5, fetched_at = JStr ''2024-05-10T00:00:01''\<rparr>,
               \<lparr>currency_code = ''USD'', rate_to_pln = 4, fetched_at = JStr ''2024-05-10T00:00:01''\<rparr>],
            cache = NoFile, tick = 1\<rparr>
   \<and> store_currency_rates E (JObj [(''pln'', JNum 5)]) stamp w
     = Inr (w\<lparr>currency_rates :=
                [\<lparr>currency_code = ''PLN'', rate_to_pln = 5, fetched_at = stamp\<rparr>]\<rparr>)"
  by (simp add: table_with_pln_def ensure_currency_rates_def Let_def read_cache_def
      store_live_rates_def rates_json_def json_of_float_def store_currency_rates_def
      replace_rates_def insert_or_replace_def upper_def upper_char_def)

section \<open>Properties of the ledger\<close>

subsection \<open>Rounding\<close>

lemma round_half_even_int [simp]: "round_half_even (of_int m) = m"
  by (simp add: round_half_even_def)

lemma powi_nonneg: "0 \<le> k \<Longrightarrow> (2::real) powi k = 2 ^ nat k"
  by (simp add: power_int_def)

lemma powi_nonpos: "k \<le> 0 \<Longrightarrow> (2::real) powi k = inverse (2 ^ nat (- k))"
  by (cases "k = 0") (simp_all add: power_int_def power_one_over inverse_eq_divide)

lemma real_pow_le: "(2::int) ^ k \<le> n \<Longrightarrow> (2::real) ^ k \<le> of_int n"
proof -
  assume "(2::int) ^ k \<le> n"
  then have "(of_int ((2::int) ^ k) :: real) \<le> of_int n" by (simp only: of_int_le_iff)
  then show ?thesis by simp
qed

lemma real_le_pow: "n \<le> (2::int) ^ k \<Longrightarrow> of_int n \<le> (2::real) ^ k"
proof -
  assume "n \<le> (2::int) ^ k"
  then have "(of_int n :: real) \<le> of_int ((2::int) ^ k)" by (simp only: of_int_le_iff)
  then show ?thesis by simp
qed

lemma bitlen_pos: "0 < n \<Longrightarrow> 1 \<le> bitlen n"
  using bitlen_eq_zero_iff [of n] bitlen_nonneg [of n] by linarith

lemma binade_bounds:
  assumes "x \<noteq> 0"
  shows "2 powi binade x \<le> \<bar>x\<bar> \<and> \<bar>x\<bar> < 2 powi (binade x + 1)"
proof (cases "1 \<le> \<bar>x\<bar>")
  case True
  define n where "n = \<lfloor>\<bar>x\<bar>\<rfloor>"
  define b where "b = bitlen n"
  from True have pos: "0 < n" unfolding n_def by linarith
  from bitlen_bounds [OF pos] have lo: "2 ^ nat (b - 1) \<le> n" and hi: "n + 1 \<le> 2 ^ nat b"
    unfolding b_def by simp_all
  have b1: "1 \<le> b" unfolding b_def using pos by (rule bitlen_pos)
  have nx: "of_int n \<le> \<bar>x\<bar>" "\<bar>x\<bar> < of_int (n + 1)" unfolding n_def by linarith+
  have l: "(2::real) ^ nat (b - 1) \<le> \<bar>x\<bar>"
    using real_pow_le [OF lo] nx(1) by linarith
  have h: "\<bar>x\<bar> < (2::real) ^ nat b"
    using real_le_pow [OF hi] nx(2) by linarith
  have e: "binade x = b - 1" using True by (simp add: binade_def n_def b_def)
  have p1: "(2::real) powi (b - 1) = 2 ^ nat (b - 1)" using b1 by (intro powi_nonneg) simp
  have p2: "(2::real) powi (b - 1 + 1) = 2 ^ nat b" using b1 by (simp add: powi_nonneg)
  show ?thesis unfolding e p1 p2 using l h by simp
next
  case False
  define y where "y = 1 / \<bar>x\<bar>"
  define m where "m = \<lceil>y\<rceil> - 1"
  define b where "b = bitlen m"
  from False assms have x: "0 < \<bar>x\<bar>" "\<bar>x\<bar> < 1" by simp_all
  then have y: "1 < y" unfolding y_def by simp
  then have pos: "0 < m" unfolding m_def by linarith
  from bitlen_bounds [OF pos] have lo: "2 ^ nat (b - 1) \<le> m" and hi: "m + 1 \<le> 2 ^ nat b"
    unfolding b_def by simp_all
  have b1: "1 \<le> b" unfolding b_def using pos by (rule bitlen_pos)
  have my: "of_int m < y" "y \<le> of_int (m + 1)" unfolding m_def by linarith+
  have l: "(2::real) ^ nat (b - 1) < y"
    using real_pow_le [OF lo] my(1) by linarith
  have h: "y \<le> (2::real) ^ nat b"
    using real_le_pow [OF hi] my(2) by linarith
  have xy: "\<bar>x\<bar> = inverse y" unfolding y_def by (simp add: field_simps)
  have ypos: "0 < y" using y by linarith
  have lower: "inverse ((2::real) ^ nat b) \<le> \<bar>x\<bar>"
    unfolding xy using h ypos by (simp add: le_imp_inverse_le)
  have upper: "\<bar>x\<bar> < inverse ((2::real) ^ nat (b - 1))"
    unfolding xy using l by (simp add: less_imp_inverse_less)
  have e: "binade x = - b" using False by (simp add: binade_def y_def m_def b_def)
  have p1: "(2::real) powi (- b) = inverse (2 ^ nat b)" using b1 powi_nonpos [of "- b"] by simp
  have p2: "(2::real) powi (- b + 1) = inverse (2 ^ nat (b - 1))"
    using b1 powi_nonpos [of "- b + 1"] by simp
  show ?thesis unfolding e p1 p2 using lower upper by simp
qed

lemma powi_less_cancel: "(2::real) powi a < 2 powi b \<Longrightarrow> a < b"
  using power_int_increasing [of b a "2::real"] by (cases "a < b") simp_all

lemma powi_le_cancel: "(2::real) powi a \<le> 2 powi b \<Longrightarrow> a \<le> b"
  using power_int_strict_increasing [of b a "2::real"] by (cases "a \<le> b") simp_all

lemma binade_unique:
  assumes "2 powi e \<le> \<bar>x\<bar>" and "\<bar>x\<bar> < 2 powi (e + 1)"
  shows "binade x = e"
proof -
  have "(0::real) < 2 powi e" by (simp add: zero_less_power_int)
  with assms(1) have "0 < \<bar>x\<bar>" by linarith
  then have x: "x \<noteq> 0" by simp
  from binade_bounds [OF x] have b: "2 powi binade x \<le> \<bar>x\<bar>" "\<bar>x\<bar> < 2 powi (binade x + 1)"
    by simp_all
  note mono = powi_less_cancel
  from assms(1) b(2) have "(2::real) powi e < 2 powi (binade x + 1)" by linarith
  then have "e < binade x + 1" by (rule mono)
  moreover from b(1) assms(2) have "(2::real) powi binade x < 2 powi (e + 1)" by linarith
  then have "binade x < e + 1" by (rule mono)
  ultimately show ?thesis by linarith
qed

lemma double_eq:
  assumes "2 powi e \<le> \<bar>x\<bar>" and "\<bar>x\<bar> < 2 powi (e + 1)" and "- 1022 \<le> e"
  shows "double x = of_int (round_half_even (x / 2 powi (e - 52))) * 2 powi (e - 52)"
proof -
  have "(0::real) < 2 powi e" by (simp add: zero_less_power_int)
  with assms(1) have "0 < \<bar>x\<bar>" by linarith
  then have x: "x \<noteq> 0" by simp
  from binade_unique [OF assms(1,2)] assms(3) have "ulp x = 2 powi (e - 52)"
    by (simp add: ulp_def max_def)
  with x show ?thesis by (simp add: double_def)
qed

lemma double_int:
  assumes "\<bar>n\<bar> \<le> 2 ^ 53"
  shows "double (of_int n) = of_int n"
proof (cases "n = 0")
  case True
  then show ?thesis by (simp add: double_def)
next
  case False
  define x :: real where "x = of_int n"
  define e where "e = binade x"
  have x0: "x \<noteq> 0" using False by (simp add: x_def)
  from binade_bounds [OF x0] have lo: "2 powi e \<le> \<bar>x\<bar>" and hi: "\<bar>x\<bar> < 2 powi (e + 1)"
    by (simp_all add: e_def)
  have ax: "\<bar>x\<bar> = of_int \<bar>n\<bar>" by (simp add: x_def)
  have "1 \<le> \<bar>x\<bar>" using False unfolding ax by linarith
  with hi have "(2::real) powi 0 < 2 powi (e + 1)" by simp
  then have "0 < e + 1" by (rule powi_less_cancel)
  then have e0: "0 \<le> e" by simp
  have "\<bar>x\<bar> \<le> 2 ^ 53" unfolding ax using real_le_pow [OF assms] by simp
  with lo have "(2::real) powi e \<le> 2 powi 53" by simp
  then have e53: "e \<le> 53" by (rule powi_le_cancel)
  have u: "ulp x = 2 powi (e - 52)" using e0 by (simp add: ulp_def e_def max_def)
  have "\<exists>m. x / 2 powi (e - 52) = of_int m"
  proof (cases "e \<le> 52")
    case True
    then have "(2::real) powi (e - 52) = inverse (2 ^ nat (52 - e))"
      using powi_nonpos [of "e - 52"] by simp
    then have "x / 2 powi (e - 52) = of_int (n * 2 ^ nat (52 - e))"
      by (simp add: x_def field_simps)
    then show ?thesis by blast
  next
    case F: False
    with e53 have e: "e = 53" by simp
    from lo have "2 ^ 53 \<le> \<bar>x\<bar>" by (simp add: e)
    with \<open>\<bar>x\<bar> \<le> 2 ^ 53\<close> have "\<bar>x\<bar> = 2 ^ 53" by linarith
    then have "x = 2 ^ 53 \<or> x = - (2 ^ 53)" by linarith
    then have "x / 2 powi (e - 52) = of_int (2 ^ 52) \<or> x / 2 powi (e - 52) = of_int (- (2 ^ 52))"
      by (auto simp: e)
    then show ?thesis by blast
  qed
  then obtain m where m: "x / 2 powi (e - 52) = of_int m" by blast
  have p: "(2::real) powi (e - 52) \<noteq> 0" by simp
  have "double x = of_int (round_half_even (x / 2 powi (e - 52))) * 2 powi (e - 52)"
    using x0 u by (simp add: double_def)
  also have "\<dots> = x / 2 powi (e - 52) * 2 powi (e - 52)" by (simp only: m round_half_even_int)
  also have "\<dots> = x" using p by simp
  finally show ?thesis by (simp add: x_def)
qed

lemma double_nat: "x \<in> \<nat> \<Longrightarrow> x \<le> 2 ^ 53 \<Longrightarrow> double x = x"
proof -
  assume "x \<in> \<nat>" and le: "x \<le> 2 ^ 53"
  then obtain k where k: "x = of_nat k" by (auto simp: Nats_def)
  then have x: "x = of_int (int k)" by simp
  from le have "real k \<le> 2 ^ 53" by (simp add: k)
  then have "k \<le> 2 ^ 53" by (metis of_nat_le_iff of_nat_numeral of_nat_power)
  then have "\<bar>int k\<bar> \<le> 2 ^ 53" by simp
  from double_int [OF this] show ?thesis by (simp add: k)
qed

subsection \<open>Exact sums\<close>

lemma whole_Nats: "whole x \<longleftrightarrow> x \<in> \<nat>"
proof
  assume "whole x"
  then have nonneg: "0 \<le> x" and x: "of_int \<lfloor>x\<rfloor> = x"
    unfolding whole_def by blast+
  from nonneg have "0 \<le> \<lfloor>x\<rfloor>" by simp
  then have "real (nat \<lfloor>x\<rfloor>) = of_int \<lfloor>x\<rfloor>" by simp
  also note x
  finally have "real (nat \<lfloor>x\<rfloor>) = x" .
  then show "x \<in> \<nat>" by (metis of_nat_in_Nats)
next
  assume "x \<in> \<nat>"
  then obtain k where "x = of_nat k" by (auto simp: Nats_def)
  then show "whole x" by (simp add: whole_def)
qed

lemma csum_Nil [simp]: "csum [] gid = 0"
  by (simp add: csum_def)

lemma csum_Cons [simp]:
  "csum (c # cs) gid = (if goal_id c = gid then sgc_amount c else 0) + csum cs gid"
  by (simp add: csum_def)

lemma csum_append [simp]: "csum (xs @ ys) gid = csum xs gid + csum ys gid"
  by (simp add: csum_def)

lemma csum_split:
  "csum cs gid = csum (filter P cs) gid + csum (filter (\<lambda>c. \<not> P c) cs) gid"
  by (induction cs) auto

lemma csum_none: "list_all (\<lambda>c. goal_id c \<noteq> gid) cs \<Longrightarrow> csum cs gid = 0"
  by (induction cs) auto

lemma csum_Nats: "list_all (\<lambda>c. whole (sgc_amount c)) cs \<Longrightarrow> csum cs gid \<in> \<nat>"
  by (induction cs) (auto simp: whole_Nats)

lemma csum_nonneg: "list_all (\<lambda>c. whole (sgc_amount c)) cs \<Longrightarrow> 0 \<le> csum cs gid"
  by (induction cs) (auto simp: whole_def)

lemma csum_member:
  "list_all (\<lambda>c. whole (sgc_amount c)) cs \<Longrightarrow> c \<in> set cs
     \<Longrightarrow> sgc_amount c \<le> csum cs (goal_id c)"
proof (induction cs)
  case Nil
  then show ?case by simp
next
  case (Cons x cs)
  then have rest: "list_all (\<lambda>c. whole (sgc_amount c)) cs" and x: "0 \<le> sgc_amount x"
    by (simp_all add: whole_def)
  show ?case
  proof (cases "c = x")
    case True
    with csum_nonneg [OF rest, of "goal_id x"] show ?thesis by simp
  next
    case False
    with Cons.prems have "c \<in> set cs" by simp
    from Cons.IH [OF rest this] x show ?thesis by simp
  qed
qed

lemma foldl_double_exact:
  "list_all whole xs \<Longrightarrow> s \<in> \<nat> \<Longrightarrow> s + sum_list xs \<le> 2 ^ 53
     \<Longrightarrow> foldl (\<lambda>total amount. double (total + amount)) s xs = s + sum_list xs"
proof (induction xs arbitrary: s)
  case Nil
  then show ?case by simp
next
  case (Cons x xs)
  from Cons.prems(1) have "whole x" and rest: "list_all whole xs"
    by simp_all
  then have x: "x \<in> \<nat>" by (simp add: whole_Nats)
  have "0 \<le> sum_list xs"
    using rest by (induction xs) (auto simp: whole_def)
  with Cons.prems(3) have "s + x \<le> 2 ^ 53" by simp
  with x Cons.prems(2) have exact: "double (s + x) = s + x"
    by (intro double_nat) (simp_all add: Nats_add)
  have "foldl (\<lambda>total amount. double (total + amount)) (s + x) xs = s + x + sum_list xs"
    using rest x Cons.prems(2,3) by (intro Cons.IH) (simp_all add: Nats_add add.assoc)
  then show ?case by (simp add: exact add.assoc)
qed

lemma contributed_exact:
  assumes "list_all (\<lambda>c. whole (sgc_amount c)) (savings_goal_contributions db)"
    and "csum (savings_goal_contributions db) gid \<le> 2 ^ 53"
  shows "contributed db gid = csum (savings_goal_contributions db) gid"
proof -
  let ?xs = "map sgc_amount (filter (\<lambda>c. goal_id c = gid) (savings_goal_contributions db))"
  have "list_all whole ?xs"
    using assms(1) by (auto simp: list_all_iff)
  moreover have "(0::real) \<in> \<nat>" by simp
  moreover have "0 + sum_list ?xs \<le> 2 ^ 53"
    using assms(2) by (simp add: csum_def)
  ultimately have "foldl (\<lambda>total amount. double (total + amount)) 0 ?xs = 0 + sum_list ?xs"
    by (rule foldl_double_exact)
  then show ?thesis by (simp add: contributed_def csum_def)
qed

lemma inv_amounts:
  "ledger_inv db \<Longrightarrow> list_all (\<lambda>c. whole (sgc_amount c)) (savings_goal_contributions db)"
  by (auto simp: ledger_inv_def list_all_iff)

lemma inv_total:
  assumes "ledger_inv db"
  shows "csum (savings_goal_contributions db) gid \<le> 2 ^ 53"
proof (cases "list_all (\<lambda>c. goal_id c \<noteq> gid) (savings_goal_contributions db)")
  case True
  then show ?thesis by (simp add: csum_none)
next
  case False
  then obtain c where "c \<in> set (savings_goal_contributions db)" "goal_id c = gid"
    by (auto simp: list_all_iff)
  with assms show ?thesis by (auto simp: ledger_inv_def list_all_iff)
qed

lemma inv_contributed:
  "ledger_inv db \<Longrightarrow> contributed db gid = csum (savings_goal_contributions db) gid"
  by (rule contributed_exact) (erule inv_amounts, erule inv_total)

lemma inv_agrees:
  assumes "ledger_inv db" and "g \<in> set (savings_goals db)"
  shows "current_amount g = contributed db (sg_id g)"
  using assms by (auto simp: inv_contributed ledger_inv_def list_all_iff)

lemma unique_row:
  "distinct (map sgc_id cs) \<Longrightarrow>
     filter (\<lambda>x. sgc_id x = cid) cs = []
     \<or> (\<exists>c \<in> set cs. sgc_id c = cid \<and> filter (\<lambda>x. sgc_id x = cid) cs = [c])"
proof (induction cs)
  case Nil
  then show ?case by simp
next
  case (Cons x cs)
  show ?case
  proof (cases "sgc_id x = cid")
    case True
    from Cons.prems have "sgc_id x \<notin> sgc_id ` set cs" by simp
    with True have "\<forall>y \<in> set cs. sgc_id y \<noteq> cid" by blast
    then have "filter (\<lambda>x. sgc_id x = cid) cs = []"
      by (simp add: filter_empty_conv)
    with True show ?thesis by simp
  next
    case False
    with Cons show ?thesis by auto
  qed
qed

subsection \<open>The statements that keep the agreement\<close>

lemma insert_keeps_inv:
  assumes inv: "ledger_inv db" and ok: "plain_op db (InsertContribution gid amt)"
  shows "ledger_inv (insert_contribution_double gid amt db)"
proof -
  let ?cs = "savings_goal_contributions db"
  let ?new = "\<lparr>sgc_id = contribution_seq db + 1, goal_id = gid, sgc_amount = amt\<rparr>"
  from ok have amt: "whole amt" and exists: "gid \<in> sg_id ` set (savings_goals db)"
    and total: "csum ?cs gid + amt \<le> 2 ^ 53"
    by (simp_all add: inv_contributed [OF inv])
  from inv exists have gid: "gid \<le> goal_seq db"
    by (auto simp: ledger_inv_def list_all_iff)
  have sums: "csum (?cs @ [?new]) g = csum ?cs g + (if g = gid then amt else 0)" for g
    by simp
  have bound: "csum (?cs @ [?new]) g \<le> 2 ^ 53" for g
    unfolding sums using total inv_total [OF inv, of g] by simp
  have exact: "double (csum ?cs gid + amt) = csum ?cs gid + amt"
    using amt total csum_Nats [OF inv_amounts [OF inv], of gid]
    by (intro double_nat) (simp_all add: whole_Nats Nats_add)
  have rows: "list_all (\<lambda>c. whole (sgc_amount c) \<and> sgc_id c \<le> contribution_seq db + 1
                     \<and> goal_id c \<le> goal_seq db
                     \<and> csum (?cs @ [?new]) (goal_id c) \<le> 2 ^ 53) (?cs @ [?new])"
    using inv amt gid bound by (auto simp: ledger_inv_def list_all_iff simp del: csum_append)
  have ids: "distinct (map sgc_id (?cs @ [?new]))"
    using inv by (auto simp: ledger_inv_def list_all_iff)
  have goals: "list_all (\<lambda>g. sg_id g \<le> goal_seq db
                       \<and> current_amount g = csum (?cs @ [?new]) (sg_id g))
          (trg_savings_goal_contributions_insert_double ?new (savings_goals db))"
    using inv exact
    by (auto simp: ledger_inv_def list_all_iff trg_savings_goal_contributions_insert_double_def)
  from rows ids goals show ?thesis
    by (simp add: ledger_inv_def insert_contribution_double_def Let_def)
qed

lemma no_row_update:
  assumes "filter (\<lambda>x. sgc_id x = cid) cs = []"
  shows "map (\<lambda>c. if sgc_id c = cid then c\<lparr>sgc_amount := amt\<rparr> else c) cs = cs"
  using assms by (induction cs) (auto split: if_splits)

lemma update_ids:
  "map sgc_id (map (\<lambda>x. if sgc_id x = cid then x\<lparr>sgc_amount := amt\<rparr> else x) cs) = map sgc_id cs"
  by (induction cs) auto

lemma csum_update_row:
  assumes "filter (\<lambda>x. sgc_id x = sgc_id c) cs = [c]"
  shows "csum (map (\<lambda>x. if sgc_id x = sgc_id c then x\<lparr>sgc_amount := amt\<rparr> else x) cs) gid
       = csum cs gid + (if goal_id c = gid then amt - sgc_amount c else 0)"
proof -
  have general: "csum (map (\<lambda>x. if sgc_id x = cid then x\<lparr>sgc_amount := amt\<rparr> else x) cs) gid
     = csum cs gid + (csum (map (\<lambda>x. x\<lparr>sgc_amount := amt\<rparr>) (filter (\<lambda>x. sgc_id x = cid) cs)) gid
                       - csum (filter (\<lambda>x. sgc_id x = cid) cs) gid)" for cid
    by (induction cs) auto
  show ?thesis
    unfolding general [of "sgc_id c"] assms by simp
qed

lemma csum_delete_row:
  assumes "filter (\<lambda>x. sgc_id x = sgc_id c) cs = [c]"
  shows "csum (filter (\<lambda>x. sgc_id x \<noteq> sgc_id c) cs) gid
       = csum cs gid - (if goal_id c = gid then sgc_amount c else 0)"
  using csum_split [of cs gid "\<lambda>x. sgc_id x = sgc_id c"] assms by simp

lemma update_keeps_inv:
  assumes inv: "ledger_inv db" and ok: "plain_op db (UpdateContribution cid amt)"
  shows "ledger_inv (update_contribution_double cid amt db)"
proof -
  let ?cs = "savings_goal_contributions db"
  from inv have "distinct (map sgc_id ?cs)" by (simp add: ledger_inv_def)
  from unique_row [OF this, of cid] show ?thesis
  proof (elim disjE bexE conjE)
    assume none: "filter (\<lambda>x. sgc_id x = cid) ?cs = []"
    then have "update_contribution_double cid amt db = db"
      by (simp add: update_contribution_double_def fold_guarded no_row_update)
    with inv show ?thesis by simp
  next
    fix c
    assume c: "c \<in> set ?cs" and cid: "sgc_id c = cid"
      and one: "filter (\<lambda>x. sgc_id x = cid) ?cs = [c]"
    let ?cs' = "map (\<lambda>x. if sgc_id x = cid then x\<lparr>sgc_amount := amt\<rparr> else x) ?cs"
    let ?C = "csum ?cs (goal_id c)"
    from ok c cid have amt: "whole amt" and total: "?C - sgc_amount c + amt \<le> 2 ^ 53"
      by (auto simp: inv_contributed [OF inv] list_all_iff)
    have old: "whole (sgc_amount c)" using inv c by (auto simp: ledger_inv_def list_all_iff)
    have le: "sgc_amount c \<le> ?C" using csum_member [OF inv_amounts [OF inv] c] .
    have C: "?C \<in> \<nat>" by (rule csum_Nats [OF inv_amounts [OF inv]])
    have diff: "?C - sgc_amount c \<in> \<nat>"
      using C old le by (simp add: whole_Nats Nats_diff)
    have "?C - sgc_amount c \<le> 2 ^ 53"
      using inv_total [OF inv, of "goal_id c"] old by (simp add: whole_def)
    with diff have first: "double (?C - sgc_amount c) = ?C - sgc_amount c"
      by (rule double_nat)
    have "?C - sgc_amount c + amt \<in> \<nat>" using diff amt by (simp add: whole_Nats Nats_add)
    from double_nat [OF this total]
    have exact: "double (double (?C - sgc_amount c) + amt) = ?C - sgc_amount c + amt"
      by (simp add: first)
    have sums: "csum ?cs' g = csum ?cs g + (if goal_id c = g then amt - sgc_amount c else 0)" for g
      using csum_update_row [of c ?cs amt g] one cid by simp
    have bound: "csum ?cs' g \<le> 2 ^ 53" for g
      unfolding sums using total inv_total [OF inv, of g] by auto
    have rows: "list_all (\<lambda>x. whole (sgc_amount x) \<and> sgc_id x \<le> contribution_seq db
                     \<and> goal_id x \<le> goal_seq db
                     \<and> csum ?cs' (goal_id x) \<le> 2 ^ 53) ?cs'"
      using inv amt bound by (auto simp: ledger_inv_def list_all_iff)
    from inv have "distinct (map sgc_id ?cs)" by (simp add: ledger_inv_def)
    then have ids: "distinct (map sgc_id ?cs')" by (simp only: update_ids)
    have goals: "list_all (\<lambda>g. sg_id g \<le> goal_seq db \<and> current_amount g = csum ?cs' (sg_id g))
          (trg_savings_goal_contributions_update_double c (c\<lparr>sgc_amount := amt\<rparr>) (savings_goals db))"
      unfolding sums using inv exact
      by (auto simp: ledger_inv_def list_all_iff trg_savings_goal_contributions_update_double_def)
    have "update_contribution_double cid amt db =
        db\<lparr>savings_goal_contributions := ?cs',
           savings_goals :=
             trg_savings_goal_contributions_update_double c (c\<lparr>sgc_amount := amt\<rparr>) (savings_goals db)\<rparr>"
      by (simp add: update_contribution_double_def fold_guarded one)
    with rows ids goals show ?thesis by (simp add: ledger_inv_def)
  qed
qed

lemma delete_keeps_inv:
  assumes inv: "ledger_inv db"
  shows "ledger_inv (delete_contribution_double cid db)"
proof -
  let ?cs = "savings_goal_contributions db"
  let ?cs' = "filter (\<lambda>x. sgc_id x \<noteq> cid) ?cs"
  from inv have "distinct (map sgc_id ?cs)" by (simp add: ledger_inv_def)
  from unique_row [OF this, of cid] show ?thesis
  proof (elim disjE bexE conjE)
    assume none: "filter (\<lambda>x. sgc_id x = cid) ?cs = []"
    then have "\<forall>x \<in> set ?cs. sgc_id x \<noteq> cid" by (simp add: filter_empty_conv)
    then have "?cs' = ?cs" by (simp add: filter_id_conv)
    with none have "delete_contribution_double cid db = db"
      by (simp add: delete_contribution_double_def fold_guarded)
    with inv show ?thesis by simp
  next
    fix c
    assume c: "c \<in> set ?cs" and cid: "sgc_id c = cid"
      and one: "filter (\<lambda>x. sgc_id x = cid) ?cs = [c]"
    let ?C = "csum ?cs (goal_id c)"
    have old: "whole (sgc_amount c)" using inv c by (auto simp: ledger_inv_def list_all_iff)
    have le: "sgc_amount c \<le> ?C" using csum_member [OF inv_amounts [OF inv] c] .
    have C: "?C \<in> \<nat>" by (rule csum_Nats [OF inv_amounts [OF inv]])
    have diff: "?C - sgc_amount c \<in> \<nat>"
      using C old le by (simp add: whole_Nats Nats_diff)
    have "?C - sgc_amount c \<le> 2 ^ 53"
      using inv_total [OF inv, of "goal_id c"] old by (simp add: whole_def)
    with diff have "double (?C - sgc_amount c) = ?C - sgc_amount c"
      by (rule double_nat)
    with le have exact: "max (double (?C - sgc_amount c)) 0 = ?C - sgc_amount c"
      by simp
    have sums: "csum ?cs' g = csum ?cs g - (if goal_id c = g then sgc_amount c else 0)" for g
      using csum_delete_row [of c ?cs g] one cid by simp
    have bound: "csum ?cs' g \<le> 2 ^ 53" for g
      unfolding sums using old inv_total [OF inv, of g] by (simp add: whole_def)
    have rows: "list_all (\<lambda>x. whole (sgc_amount x) \<and> sgc_id x \<le> contribution_seq db
                     \<and> goal_id x \<le> goal_seq db
                     \<and> csum ?cs' (goal_id x) \<le> 2 ^ 53) ?cs'"
      using inv bound by (auto simp: ledger_inv_def list_all_iff)
    from inv have ids: "distinct (map sgc_id ?cs')"
      by (simp add: ledger_inv_def distinct_map_filter)
    have goals: "list_all (\<lambda>g. sg_id g \<le> goal_seq db \<and> current_amount g = csum ?cs' (sg_id g))
          (trg_savings_goal_contributions_delete_double c (savings_goals db))"
      unfolding sums using inv exact
      by (auto simp: ledger_inv_def list_all_iff trg_savings_goal_contributions_delete_double_def)
    have "delete_contribution_double cid db =
        db\<lparr>savings_goal_contributions := ?cs',
           savings_goals := trg_savings_goal_contributions_delete_double c (savings_goals db)\<rparr>"
      by (simp add: delete_contribution_double_def fold_guarded one)
    with rows ids goals show ?thesis by (simp add: ledger_inv_def)
  qed
qed

lemma insert_goal_keeps_inv:
  assumes inv: "ledger_inv db"
  shows "ledger_inv (insert_goal user_id target 0 db)"
proof -
  have "list_all (\<lambda>c. goal_id c \<noteq> goal_seq db + 1) (savings_goal_contributions db)"
    using inv by (auto simp: ledger_inv_def list_all_iff)
  then have "csum (savings_goal_contributions db) (goal_seq db + 1) = 0"
    by (rule csum_none)
  with inv show ?thesis
    by (auto simp: ledger_inv_def insert_goal_def list_all_iff)
qed

lemma update_goal_keeps_inv:
  assumes inv: "ledger_inv db"
  shows "ledger_inv (update_goal gid user_id target None db)"
  using inv by (auto simp: ledger_inv_def update_goal_def list_all_iff)

lemma plain_op_keeps_inv:
  assumes "ledger_inv db" and "plain_op db op"
  shows "ledger_inv (exec_op op db)"
proof (cases op)
  case (InsertContribution gid amt)
  with assms show ?thesis by (simp only: exec_op.simps insert_keeps_inv)
next
  case (UpdateContribution cid amt)
  with assms show ?thesis by (simp only: exec_op.simps update_keeps_inv)
next
  case (DeleteContribution cid)
  with assms show ?thesis by (simp only: exec_op.simps delete_keeps_inv)
next
  case (InsertGoal user_id target current)
  with assms show ?thesis by (simp add: insert_goal_keeps_inv)
next
  case (UpdateGoal gid user_id target current)
  with assms show ?thesis by (simp add: update_goal_keeps_inv)
qed

lemma run_plain_keeps_inv:
  "ledger_inv db \<Longrightarrow> run_plain ops db = Some db' \<Longrightarrow> ledger_inv db'"
proof (induction ops arbitrary: db)
  case Nil
  then show ?case by simp
next
  case (Cons op ops)
  from Cons.prems(2) have ok: "plain_op db op" and rest: "run_plain ops (exec_op op db) = Some db'"
    by (auto split: if_splits)
  from Cons.prems(1) ok have "ledger_inv (exec_op op db)" by (rule plain_op_keeps_inv)
  from Cons.IH [OF this rest] show ?case .
qed

lemma empty_goals_db_inv: "ledger_inv empty_goals_db"
  by (simp add: ledger_inv_def empty_goals_db_def)

subsection \<open>Values of the rounding\<close>

lemma double_zero: "double 0 = 0"
  by (simp add: double_def)

lemma double_one: "double 1 = 1"
  using double_int [of 1] by simp

lemma double_numeral: "numeral k \<le> (2::int) ^ 53 \<Longrightarrow> double (numeral k) = numeral k"
  using double_int [of "numeral k"] by simp

lemma double_neg_numeral:
  "numeral k \<le> (2::int) ^ 53 \<Longrightarrow> double (- numeral k) = - numeral k"
  using double_int [of "- numeral k"] by simp

lemma double_ties:
  "double (2 ^ 52 + 1 / 2) = 2 ^ 52"
  "double (2 ^ 53 + 1) = 2 ^ 53"
  "double (1 / 2) = 1 / 2"
  using double_eq [of 52 "2 ^ 52 + 1 / 2"] double_eq [of 53 "2 ^ 53 + 1"]
    double_eq [of "- 1" "1 / 2"]
  by (simp_all add: round_half_even_def)

lemma double_tenths:
  "double (1 / 10) = 3602879701896397 / 36028797018963968"
  "double (1 / 5) = 3602879701896397 / 18014398509481984"
  "double (3602879701896397 / 36028797018963968) = 3602879701896397 / 36028797018963968"
  "double (3602879701896397 / 18014398509481984) = 3602879701896397 / 18014398509481984"
  "double (10808639105689191 / 36028797018963968) = 1351079888211149 / 4503599627370496"
  "double (7205759403792795 / 36028797018963968) = 7205759403792795 / 36028797018963968"
  using double_eq [of "- 4" "1 / 10"] double_eq [of "- 3" "1 / 5"]
    double_eq [of "- 4" "3602879701896397 / 36028797018963968"]
    double_eq [of "- 3" "3602879701896397 / 18014398509481984"]
    double_eq [of "- 2" "10808639105689191 / 36028797018963968"]
    double_eq [of "- 3" "7205759403792795 / 36028797018963968"]
  by (simp_all add: round_half_even_def)

subsection \<open>The agreement of the aggregate and the sum\<close>

text \<open>
  Claim C8, as the code has it. Start from the empty tables. After any run of statements
  of these kinds: a contribution insert of a whole, non-negative amount for a goal that
  exists, a contribution amount update to a whole, non-negative amount, both leaving the
  total of the goal at \<open>2 ^ 53\<close> at most; a contribution delete; a goal insert with
  \<^verbatim>\<open>current_amount\<close> 0 (the default of the handler); a goal update that does not set
  \<^verbatim>\<open>current_amount\<close>; every goal's \<^verbatim>\<open>current_amount\<close> is the sum that the query gives for the
  amounts of the contributions recorded for it, with all arithmetic in doubles.
\<close>

theorem ledger_agrees_after_plain_statements:
  assumes "run_plain ops empty_goals_db = Some db'"
  shows "\<forall>g \<in> set (savings_goals db'). current_amount g = contributed db' (sg_id g)"
proof
  fix g
  assume g: "g \<in> set (savings_goals db')"
  from run_plain_keeps_inv [OF empty_goals_db_inv assms] have "ledger_inv db'" .
  from inv_agrees [OF this g] show "current_amount g = contributed db' (sg_id g)" .
qed

theorem ledger_agrees_after_plain_statements_witness:
  "run_plain
     [InsertGoal 1 100 0, InsertContribution 1 30, InsertContribution 1 20,
      UpdateContribution 1 40, DeleteContribution 2] empty_goals_db
   = Some \<lparr>savings_goals = [\<lparr>sg_id = 1, sg_user_id = 1, target_amount = 100, current_amount = 40\<rparr>],
           savings_goal_contributions = [\<lparr>sgc_id = 1, goal_id = 1, sgc_amount = 40\<rparr>],
           goal_seq = 1, contribution_seq = 2\<rparr>
   \<and> contributed
       \<lparr>savings_goals = [\<lparr>sg_id = 1, sg_user_id = 1, target_amount = 100, current_amount = 40\<rparr>],
        savings_goal_contributions = [\<lparr>sgc_id = 1, goal_id = 1, sgc_amount = 40\<rparr>],
        goal_seq = 1, contribution_seq = 2\<rparr> 1 = 40"
proof -
  let ?ops = "[InsertGoal 1 100 0, InsertContribution 1 30, InsertContribution 1 20,
      UpdateContribution 1 40, DeleteContribution 2]"
  let ?db' = "\<lparr>savings_goals = [\<lparr>sg_id = 1, sg_user_id = 1, target_amount = 100, current_amount = 40\<rparr>],
           savings_goal_contributions = [\<lparr>sgc_id = 1, goal_id = 1, sgc_amount = 40\<rparr>],
           goal_seq = 1, contribution_seq = 2\<rparr>"
  have run: "run_plain ?ops empty_goals_db = Some ?db'"
    by (simp add: empty_goals_db_def insert_goal_def insert_contribution_double_def
        update_contribution_double_def delete_contribution_double_def Let_def
        trg_savings_goal_contributions_insert_double_def
        trg_savings_goal_contributions_update_double_def
        trg_savings_goal_contributions_delete_double_def
        contributed_def whole_def double_zero double_numeral)
  from ledger_agrees_after_plain_statements [OF run]
  have "contributed ?db' 1 = 40" by simp
  with run show ?thesis by blast
qed

text \<open>
  Claim C8 as stated, for any sequence of statements, does not hold, and each condition of
  the statement above is needed. In every run below the goal with id 1 ends with the
  \<^verbatim>\<open>current_amount\<close> on the left, while the query gives the sum on the right.
  \<^item> A goal created through the handler with \<^verbatim>\<open>current_amount = 50\<close> (in PLN, so that the
    conversion is the identity) and no contribution: 50 against 0.
  \<^item> A goal updated to \<^verbatim>\<open>current_amount = 70\<close>: 70 against 0.
  \<^item> A contribution inserted for goal 1 before the goal exists (foreign keys are not
    enforced): 0 against 5.
  \<^item> A negative amount, inserted or set by an update, and then a delete that hits the
    floor of the delete trigger: 0 against \<open>-5\<close>.
  \<^item> Amounts that are not whole: \<open>2 ^ 52\<close> and a half, then the first deleted: 0 against a
    half; the doubles nearest 0.1 and 0.2, then the first deleted:
    0.20000000000000004 against 0.2.
  \<^item> A total beyond \<open>2 ^ 53\<close>: \<open>2 ^ 53\<close> and 1, then the first deleted: 0 against 1.
\<close>

theorem ledger_counterexample:
  "savings_goals_post offline 1 100 (Some 50) (Some ''PLN'') euro_world empty_goals_db
     = Inr (euro_world,
            \<lparr>savings_goals = [\<lparr>sg_id = 1, sg_user_id = 1, target_amount = 100, current_amount = 50\<rparr>],
             savings_goal_contributions = [], goal_seq = 1, contribution_seq = 0\<rparr>)
   \<and> contributed
       \<lparr>savings_goals = [\<lparr>sg_id = 1, sg_user_id = 1, target_amount = 100, current_amount = 50\<rparr>],
        savings_goal_contributions = [], goal_seq = 1, contribution_seq = 0\<rparr> 1 = 0
   \<and> map current_amount (savings_goals
         (run [InsertGoal 1 100 0, UpdateGoal 1 1 None (Some 70)] empty_goals_db)) = [70]
   \<and> contributed (run [InsertGoal 1 100 0, UpdateGoal 1 1 None (Some 70)] empty_goals_db) 1 = 0
   \<and> map current_amount (savings_goals
         (run [InsertContribution 1 5, InsertGoal 1 100 0] empty_goals_db)) = [0]
   \<and> contributed (run [InsertContribution 1 5, InsertGoal 1 100 0] empty_goals_db) 1 = 5
   \<and> map current_amount (savings_goals
         (run [InsertGoal 1 100 0, InsertContribution 1 3, InsertContribution 1 (- 5),
               DeleteContribution 1] empty_goals_db)) = [0]
   \<and> contributed
         (run [InsertGoal 1 100 0, InsertContribution 1 3, InsertContribution 1 (- 5),
               DeleteContribution 1] empty_goals_db) 1 = - 5
   \<and> map current_amount (savings_goals
         (run [InsertGoal 1 100 0, InsertContribution 1 3, InsertContribution 1 5,
               UpdateContribution 2 (- 5), DeleteContribution 1] empty_goals_db)) = [0]
   \<and> contributed
         (run [InsertGoal 1 100 0, InsertContribution 1 3, InsertContribution 1 5,
               UpdateContribution 2 (- 5), DeleteContribution 1] empty_goals_db) 1 = - 5
   \<and> map current_amount (savings_goals
         (run [InsertGoal 1 100 0, InsertContribution 1 (2 ^ 52), InsertContribution 1 (1 / 2),
               DeleteContribution 1] empty_goals_db)) = [0]
   \<and> contributed
         (run [InsertGoal 1 100 0, InsertContribution 1 (2 ^ 52), InsertContribution 1 (1 / 2),
               DeleteContribution 1] empty_goals_db) 1 = 1 / 2
   \<and> map current_amount (savings_goals
         (run [InsertGoal 1 100 0, InsertContribution 1 (double (1 / 10)),
               InsertContribution 1 (double (2 / 10)), DeleteContribution 1] empty_goals_db))
       = [7205759403792795 / 36028797018963968]
   \<and> contributed
         (run [InsertGoal 1 100 0, InsertContribution 1 (double (1 / 10)),
               InsertContribution 1 (double (2 / 10)), DeleteContribution 1] empty_goals_db) 1
       = 7205759403792794 / 36028797018963968
   \<and> map current_amount (savings_goals
         (run [InsertGoal 1 100 0, InsertContribution 1 (2 ^ 53), InsertContribution 1 1,
               DeleteContribution 1] empty_goals_db)) = [0]
   \<and> contributed
         (run [InsertGoal 1 100 0, InsertContribution 1 (2 ^ 53), InsertContribution 1 1,
               DeleteContribution 1] empty_goals_db) 1 = 1"
proof -
  note statements = run_def empty_goals_db_def insert_goal_def update_goal_def
    insert_contribution_double_def update_contribution_double_def
    delete_contribution_double_def Let_def
    trg_savings_goal_contributions_insert_double_def
    trg_savings_goal_contributions_update_double_def
    trg_savings_goal_contributions_delete_double_def contributed_def
  note exact = double_zero double_one double_numeral double_neg_numeral
  have created: "savings_goals_post offline 1 100 (Some 50) (Some ''PLN'') euro_world empty_goals_db
     = Inr (euro_world,
            \<lparr>savings_goals = [\<lparr>sg_id = 1, sg_user_id = 1, target_amount = 100, current_amount = 50\<rparr>],
             savings_goal_contributions = [], goal_seq = 1, contribution_seq = 0\<rparr>)
   \<and> contributed
       \<lparr>savings_goals = [\<lparr>sg_id = 1, sg_user_id = 1, target_amount = 100, current_amount = 50\<rparr>],
        savings_goal_contributions = [], goal_seq = 1, contribution_seq = 0\<rparr> 1 = 0"
    by (simp add: savings_goals_post_def convert_to_base_def convert_amount_def Let_def
        normalize_currency_def BASE_CURRENCY_def strip_def is_space_def upper_def upper_char_def
        or_pln_upper_def insert_goal_def empty_goals_db_def contributed_def)
  have updated: "map current_amount (savings_goals
         (run [InsertGoal 1 100 0, UpdateGoal 1 1 None (Some 70)] empty_goals_db)) = [70]
   \<and> contributed (run [InsertGoal 1 100 0, UpdateGoal 1 1 None (Some 70)] empty_goals_db) 1 = 0"
    by (simp add: statements)
  have early: "map current_amount (savings_goals
         (run [InsertContribution 1 5, InsertGoal 1 100 0] empty_goals_db)) = [0]
   \<and> contributed (run [InsertContribution 1 5, InsertGoal 1 100 0] empty_goals_db) 1 = 5"
    by (simp add: statements exact)
  have negative: "map current_amount (savings_goals
         (run [InsertGoal 1 100 0, InsertContribution 1 3, InsertContribution 1 (- 5),
               DeleteContribution 1] empty_goals_db)) = [0]
   \<and> contributed
         (run [InsertGoal 1 100 0, InsertContribution 1 3, InsertContribution 1 (- 5),
               DeleteContribution 1] empty_goals_db) 1 = - 5"
    by (simp add: statements exact)
  have lowered: "map current_amount (savings_goals
         (run [InsertGoal 1 100 0, InsertContribution 1 3, InsertContribution 1 5,
               UpdateContribution 2 (- 5), DeleteContribution 1] empty_goals_db)) = [0]
   \<and> contributed
         (run [InsertGoal 1 100 0, InsertContribution 1 3, InsertContribution 1 5,
               UpdateContribution 2 (- 5), DeleteContribution 1] empty_goals_db) 1 = - 5"
    by (simp add: statements exact)
  have half: "map current_amount (savings_goals
         (run [InsertGoal 1 100 0, InsertContribution 1 (2 ^ 52), InsertContribution 1 (1 / 2),
               DeleteContribution 1] empty_goals_db)) = [0]
   \<and> contributed
         (run [InsertGoal 1 100 0, InsertContribution 1 (2 ^ 52), InsertContribution 1 (1 / 2),
               DeleteContribution 1] empty_goals_db) 1 = 1 / 2"
    using double_ties by (simp add: statements exact)
  have tenths: "map current_amount (savings_goals
         (run [InsertGoal 1 100 0, InsertContribution 1 (double (1 / 10)),
               InsertContribution 1 (double (2 / 10)), DeleteContribution 1] empty_goals_db))
       = [7205759403792795 / 36028797018963968]
   \<and> contributed
         (run [InsertGoal 1 100 0, InsertContribution 1 (double (1 / 10)),
               InsertContribution 1 (double (2 / 10)), DeleteContribution 1] empty_goals_db) 1
       = 7205759403792794 / 36028797018963968"
    by (simp add: statements exact double_tenths)
  have beyond: "map current_amount (savings_goals
         (run [InsertGoal 1 100 0, InsertContribution 1 (2 ^ 53), InsertContribution 1 1,
               DeleteContribution 1] empty_goals_db)) = [0]
   \<and> contributed
         (run [InsertGoal 1 100 0, InsertContribution 1 (2 ^ 53), InsertContribution 1 1,
               DeleteContribution 1] empty_goals_db) 1 = 1"
    using double_ties by (simp add: statements exact)
  from created updated early negative lowered half tenths beyond show ?thesis
    by (intro conjI) (erule conjunct1, erule conjunct2)+
qed

end
